theory Spec2Isabelle
  imports Complex_Main "HOL-Library.Word"
begin

unbundle bit_operations_syntax

section \<open>Values\<close>

text \<open>
  The sources are two translation units of a game sample, \<^verbatim>\<open>AudioLayer.cpp\<close> and
  \<^verbatim>\<open>SceneBuildLayer.cpp\<close>. They compose calls into an engine (florp, entt, glm, an audio
  engine) that is not part of the sources. The embedding keeps the engine's objects in
  an explicit store, records every engine call in a log, and lets every engine call
  raise an error that the engine chooses.
\<close>

type_synonym handle = nat \<comment> \<open>the object a shared pointer or a \<^verbatim>\<open>Scene*\<close> points to\<close>
type_synonym entity = nat \<comment> \<open>\<^verbatim>\<open>entt::entity\<close>\<close>
type_synonym addr = nat \<comment> \<open>the address of a caller's \<^verbatim>\<open>entt::entity\<close> variable\<close>

text \<open>
  A float that the code computes is kept as the expression that computes it: the
  embedding does no floating-point arithmetic. \<open>Lit\<close> is a literal by its decimal
  value as written (\<^verbatim>\<open>0.25f\<close> is \<open>Lit 0.25\<close>), \<open>OfInt\<close> the conversion of an
  \<^verbatim>\<open>int\<close>.
\<close>

datatype fexp =
    Lit real
  | OfInt int
  | Add fexp fexp
  | Mul fexp fexp
  | Div fexp fexp
  | glm_sin fexp
  | glm_cos fexp
  | glm_radians fexp
  | glm_pi
  | glm_two_pi

datatype vec3 = vec3 fexp fexp fexp
datatype 'a vec4 = vec4 'a 'a 'a 'a
datatype ivec2 = ivec2 int int
datatype mat4 = glm_perspective fexp fexp fexp fexp

text \<open>\<^verbatim>\<open>glm::vec3(x)\<close> and \<^verbatim>\<open>glm::vec4(x)\<close> with one argument fill every component.\<close>

definition vec3_all :: "fexp \<Rightarrow> vec3" where
  "vec3_all a = vec3 a a a"

definition vec4_all :: "'a \<Rightarrow> 'a vec4" where
  "vec4_all a = vec4 a a a a"

fun vec3_div :: "vec3 \<Rightarrow> fexp \<Rightarrow> vec3" where
  "vec3_div (vec3 a b c) k = vec3 (Div a k) (Div b k) (Div c k)"

fun vec3_mul :: "vec3 \<Rightarrow> fexp \<Rightarrow> vec3" where
  "vec3_mul (vec3 a b c) k = vec3 (Mul a k) (Mul b k) (Mul c k)"

text \<open>
  A colour handed to \<^verbatim>\<open>CreateSolidTexture\<close> is a run-time value that the code compares
  and stores but never computes with. Its components are IEEE-754 binary32 values, kept
  as their bit patterns, and \<open>float_eq\<close> is the language's \<^verbatim>\<open>==\<close> on them: a NaN is
  equal to nothing, the two zeros are equal to each other.
\<close>

type_synonym float = "32 word"

definition is_nan :: "float \<Rightarrow> bool" where
  "is_nan a = (a AND 0x7F800000 = 0x7F800000 \<and> a AND 0x007FFFFF \<noteq> 0)"

definition is_zero :: "float \<Rightarrow> bool" where
  "is_zero a = (a AND 0x7FFFFFFF = 0)"

definition float_eq :: "float \<Rightarrow> float \<Rightarrow> bool" where
  "float_eq a b = (\<not> is_nan a \<and> \<not> is_nan b \<and> (a = b \<or> (is_zero a \<and> is_zero b)))"

text \<open>\<^verbatim>\<open>operator==\<close> of \<^verbatim>\<open>glm::vec4\<close>: every component equal.\<close>

fun vec4_eq :: "float vec4 \<Rightarrow> float vec4 \<Rightarrow> bool" where
  "vec4_eq (vec4 a b c d) (vec4 a' b' c' d') =
     (float_eq a a' \<and> float_eq b b' \<and> float_eq c c' \<and> float_eq d d')"

fun has_nan :: "float vec4 \<Rightarrow> bool" where
  "has_nan (vec4 a b c d) = (is_nan a \<or> is_nan b \<or> is_nan c \<or> is_nan d)"

section \<open>Engine objects\<close>

text \<open>
  The enumerations and structures below are declared in engine headers. Each has the
  members and fields that the sources name. A component field is \<open>None\<close> until the
  code assigns it: a null shared pointer, or whatever the header's default is.
\<close>

datatype RenderTargetAttachment = Color0 | Color1 | Color2 | Depth
datatype RenderTargetType = ColorRgb8 | ColorRgb10 | Depth32
datatype ShaderStageType = VertexShader | FragmentShader
datatype InternalFormat = RGBA8
datatype MagFilter = MagNearest
datatype MinFilter = MinNearest
datatype WrapMode = ClampToEdge
datatype PixelFormat = Rgba
datatype PixelType = Float

record RenderBufferDesc =
  ShaderReadable :: bool
  Attachment :: RenderTargetAttachment
  Format :: RenderTargetType

record Texture2dDescription =
  desc_Width :: int
  desc_Height :: int
  desc_Format :: InternalFormat
  desc_MagFilter :: MagFilter
  desc_MinFilter :: MinFilter
  desc_MipmapLevels :: int
  desc_WrapS :: WrapMode
  desc_WrapT :: WrapMode

record Texture2dData =
  data_Width :: int
  data_Height :: int
  data_Format :: PixelFormat
  data_Type :: PixelType
  data_Data :: "float vec4" \<comment> \<open>the four floats at \<^verbatim>\<open>&color.r\<close>\<close>

datatype MeshData = LoadedObj string "fexp vec4"

datatype Texture2D =
    LoadedFromFile string bool bool bool
  | Texture2D Texture2dDescription "Texture2dData option"

record FrameBuffer =
  fb_Width :: int
  fb_Height :: int
  fb_NumSamples :: "int option" \<comment> \<open>\<open>None\<close>: the constructor's default\<close>
  fb_Attachments :: "RenderBufferDesc list"
  fb_Validated :: bool
  fb_DebugName :: "string option"
  fb_CloneOf :: "handle option" \<comment> \<open>the framebuffer \<^verbatim>\<open>Clone\<close> was called on\<close>

record Shader =
  sh_Parts :: "(ShaderStageType \<times> string) list"
  sh_Linked :: bool

record Material =
  mat_Shader :: handle
  mat_Textures :: "string \<rightharpoonup> handle"
  mat_Floats :: "string \<rightharpoonup> fexp"

record Transform =
  tr_Position :: "vec3 option"
  tr_LookAt :: "(vec3 \<times> vec3) option" \<comment> \<open>target and up\<close>

record RenderableComponent =
  rc_Mesh :: "handle option"
  rc_Material :: "handle option"

record CameraComponent =
  cam_BackBuffer :: "handle option"
  cam_FrontBuffer :: "handle option"
  cam_IsMainCamera :: "bool option"
  cam_Projection :: "mat4 option"

record PointLightComponent =
  pl_Color :: "vec3 option"
  pl_Attenuation :: "fexp option"

record ShadowLight =
  sl_ShadowBuffer :: "handle option"
  sl_Projection :: "mat4 option"
  sl_Attenuation :: "fexp option"
  sl_Color :: "vec3 option"

datatype behaviour =
    ControlBehaviour vec3
  | RotateBehaviour vec3
  | RandomBehaviour
  | LightFlickerBehaviour fexp fexp fexp

text \<open>
  A scene: its entities in creation order, the components of each kind by entity, and
  the behaviours attached to each entity.
\<close>

record Scene =
  entities :: "entity list"
  Transforms :: "entity \<rightharpoonup> Transform"
  Renderables :: "entity \<rightharpoonup> RenderableComponent"
  Cameras :: "entity \<rightharpoonup> CameraComponent"
  PointLights :: "entity \<rightharpoonup> PointLightComponent"
  ShadowLights :: "entity \<rightharpoonup> ShadowLight"
  behaviours :: "entity \<Rightarrow> behaviour list"

datatype component = TransformC | RenderableC | CameraC | PointLightC | ShadowLightC

section \<open>Engine calls, errors and the state\<close>

text \<open>Every call into the engine, with its arguments.\<close>

datatype call =
    Call_Init
  | Call_LoadSound string bool bool bool
  | Call_PlaySound string
  | Call_Shutdown
  | Call_Update
  | Call_RegisterScene string
  | Call_SetCurrentScene string
  | Call_LoadObj string "fexp vec4"
  | Call_Bake MeshData
  | Call_make_Shader
  | Call_LoadPart handle ShaderStageType string
  | Call_Link handle
  | Call_make_Material handle
  | Call_Set_texture handle string handle
  | Call_Set_float handle string fexp
  | Call_LoadFromFile string bool bool bool
  | Call_make_Texture2D Texture2dDescription
  | Call_SetData handle Texture2dData
  | Call_make_FrameBuffer int int "int option"
  | Call_AddAttachment handle RenderBufferDesc
  | Call_Validate handle
  | Call_SetDebugName handle string
  | Call_Clone handle
  | Call_CreateEntity handle
  | Call_assign component handle entity
  | Call_get_Transform handle entity
  | Call_AddBehaviour handle entity behaviour
  | Call_SetPosition handle entity vec3
  | Call_LookAt handle entity vec3 vec3

text \<open>An error is whatever the engine reports; the code never looks inside one.\<close>

datatype error = EngineError string

text \<open>
  The state is everything a function of the sources can read or change. \<open>faults\<close>
  is the engine's failure behaviour: given the calls made so far and the call being
  made, the error the engine raises, if any. \<open>calls\<close> is the log of the calls that
  returned. The stores are total: a handle that was never allocated holds some object.
\<close>

record state =
  faults :: "call list \<Rightarrow> call \<Rightarrow> error option"
  calls :: "call list"
  next_handle :: handle
  window_Width :: int \<comment> \<open>\<^verbatim>\<open>app->GetWindow()->GetWidth()\<close>\<close>
  window_Height :: int \<comment> \<open>\<^verbatim>\<open>app->GetWindow()->GetHeight()\<close>\<close>
  scene_registry :: "string \<rightharpoonup> handle"
  current_scene :: "string option"
  scenes :: "handle \<Rightarrow> Scene"
  framebuffers :: "handle \<Rightarrow> FrameBuffer"
  shaders :: "handle \<Rightarrow> Shader"
  materials :: "handle \<Rightarrow> Material"
  textures :: "handle \<Rightarrow> Texture2D"
  meshes :: "handle \<Rightarrow> MeshData"
  entity_vars :: "addr \<Rightarrow> entity"
  cache :: "(float vec4 \<times> handle) list"
    \<comment> \<open>the static \<^verbatim>\<open>cache\<close> of \<^verbatim>\<open>CreateSolidTexture\<close>\<close>

type_synonym 'a io = "state \<Rightarrow> error + ('a \<times> state)"

text \<open>
  Sequencing: the sources have no \<^verbatim>\<open>try\<close>, so an error of the first part ends the
  whole.
\<close>

definition bind_io :: "'a io \<Rightarrow> ('a \<Rightarrow> 'b io) \<Rightarrow> 'b io" where
  "bind_io m f s = (case m s of Inl e \<Rightarrow> Inl e | Inr (a, s') \<Rightarrow> f a s')"

definition return_io :: "'a \<Rightarrow> 'a io" where
  "return_io a s = Inr (a, s)"

text \<open>A write through a reference or into a local: no engine call, no error.\<close>

definition modify :: "(state \<Rightarrow> state) \<Rightarrow> unit io" where
  "modify f s = Inr ((), f s)"

text \<open>A read of the state: an inline accessor, or a look at a static.\<close>

definition gets :: "(state \<Rightarrow> 'a) \<Rightarrow> 'a io" where
  "gets f s = Inr (f s, s)"

text \<open>
  An engine call: the engine raises, or the call is logged and has its effect
  \<open>eff\<close>, which also gives the value returned.
\<close>

definition invoke :: "call \<Rightarrow> (state \<Rightarrow> 'a \<times> state) \<Rightarrow> 'a io" where
  "invoke c eff s =
     (case faults s (calls s) c of
        Some e \<Rightarrow> Inl e
      | None \<Rightarrow> Inr (eff (s\<lparr>calls := calls s @ [c]\<rparr>)))"

text \<open>Allocation of a new engine object: the next unused handle.\<close>

definition alloc :: "state \<Rightarrow> handle \<times> state" where
  "alloc s = (next_handle s, s\<lparr>next_handle := Suc (next_handle s)\<rparr>)"

section \<open>The audio engine\<close>

text \<open>
  Modelled from the spec: the audio engine (\<^verbatim>\<open>AudioEngine.h\<close>) is an external
  interface that is not in the sources. Its calls are logged and may raise; no state of
  its own is modelled.
\<close>

definition AudioEngine_Init :: "unit io" where
  "AudioEngine_Init = invoke Call_Init (\<lambda>s. ((), s))"

definition AudioEngine_LoadSound :: "string \<Rightarrow> bool \<Rightarrow> bool \<Rightarrow> bool \<Rightarrow> unit io" where
  "AudioEngine_LoadSound name b1 b2 b3 = invoke (Call_LoadSound name b1 b2 b3) (\<lambda>s. ((), s))"

definition AudioEngine_PlaySound :: "string \<Rightarrow> unit io" where
  "AudioEngine_PlaySound name = invoke (Call_PlaySound name) (\<lambda>s. ((), s))"

definition AudioEngine_Shutdown :: "unit io" where
  "AudioEngine_Shutdown = invoke Call_Shutdown (\<lambda>s. ((), s))"

definition AudioEngine_Update :: "unit io" where
  "AudioEngine_Update = invoke Call_Update (\<lambda>s. ((), s))"

section \<open>AudioLayer.cpp\<close>

definition AudioLayer_Initialize :: "unit io" where
  "AudioLayer_Initialize =
     bind_io AudioEngine_Init (\<lambda>_.
     bind_io (AudioEngine_LoadSound ''AH.wav'' False True True) (\<lambda>_.
     AudioEngine_PlaySound ''AH.wav''))"

definition AudioLayer_Shutdown :: "unit io" where
  "AudioLayer_Shutdown = AudioEngine_Shutdown"

definition AudioLayer_Update :: "unit io" where
  "AudioLayer_Update = AudioEngine_Update"

section \<open>The engine\<close>

text \<open>
  Modelled from the spec: the engine (scene manager, mesh, material, shader and texture
  factories, framebuffers, the ECS registry, behaviour attachment) is an external
  interface that is not in the sources. Each call does the least its name and its use in
  the sources say: a factory allocates a new object and returns its handle, a setter
  stores its argument, \<^verbatim>\<open>RegisterScene\<close> makes a new scene with no entity,
  \<^verbatim>\<open>CreateEntity\<close> makes an entity that the scene does not hold yet and gives it a
  \<^verbatim>\<open>Transform\<close>, \<^verbatim>\<open>assign\<close> attaches a default-constructed component, and
  \<^verbatim>\<open>Clone\<close> makes a new framebuffer configured as the one cloned.
\<close>

definition empty_Scene :: Scene where
  "empty_Scene =
     \<lparr>entities = [], Transforms = Map.empty, Renderables = Map.empty, Cameras = Map.empty,
      PointLights = Map.empty, ShadowLights = Map.empty, behaviours = (\<lambda>_. [])\<rparr>"

definition fresh_entity :: "entity list \<Rightarrow> entity" where
  "fresh_entity es = fold max (map Suc es) 0"

definition upd_scene :: "handle \<Rightarrow> (Scene \<Rightarrow> Scene) \<Rightarrow> state \<Rightarrow> state" where
  "upd_scene sc f s = s\<lparr>scenes := (scenes s)(sc := f (scenes s sc))\<rparr>"

definition SceneManager_RegisterScene :: "string \<Rightarrow> handle io" where
  "SceneManager_RegisterScene name =
     invoke (Call_RegisterScene name) (\<lambda>s.
       let (h, s) = alloc s
       in (h, s\<lparr>scene_registry := (scene_registry s)(name \<mapsto> h),
                scenes := (scenes s)(h := empty_Scene)\<rparr>))"

definition SceneManager_SetCurrentScene :: "string \<Rightarrow> unit io" where
  "SceneManager_SetCurrentScene name =
     invoke (Call_SetCurrentScene name) (\<lambda>s. ((), s\<lparr>current_scene := Some name\<rparr>))"

definition ObjLoader_LoadObj :: "string \<Rightarrow> fexp vec4 \<Rightarrow> MeshData io" where
  "ObjLoader_LoadObj file col = invoke (Call_LoadObj file col) (\<lambda>s. (LoadedObj file col, s))"

definition MeshBuilder_Bake :: "MeshData \<Rightarrow> handle io" where
  "MeshBuilder_Bake d =
     invoke (Call_Bake d) (\<lambda>s. let (h, s) = alloc s in (h, s\<lparr>meshes := (meshes s)(h := d)\<rparr>))"

definition make_Shader :: "handle io" where
  "make_Shader =
     invoke Call_make_Shader (\<lambda>s.
       let (h, s) = alloc s
       in (h, s\<lparr>shaders := (shaders s)(h := \<lparr>sh_Parts = [], sh_Linked = False\<rparr>)\<rparr>))"

definition Shader_LoadPart :: "handle \<Rightarrow> ShaderStageType \<Rightarrow> string \<Rightarrow> unit io" where
  "Shader_LoadPart h stage file =
     invoke (Call_LoadPart h stage file) (\<lambda>s.
       ((), s\<lparr>shaders := (shaders s)
                 (h := (shaders s h)\<lparr>sh_Parts := sh_Parts (shaders s h) @ [(stage, file)]\<rparr>)\<rparr>))"

definition Shader_Link :: "handle \<Rightarrow> unit io" where
  "Shader_Link h =
     invoke (Call_Link h) (\<lambda>s.
       ((), s\<lparr>shaders := (shaders s)(h := (shaders s h)\<lparr>sh_Linked := True\<rparr>)\<rparr>))"

definition make_Material :: "handle \<Rightarrow> handle io" where
  "make_Material sh =
     invoke (Call_make_Material sh) (\<lambda>s.
       let (h, s) = alloc s
       in (h, s\<lparr>materials := (materials s)
                  (h := \<lparr>mat_Shader = sh, mat_Textures = Map.empty, mat_Floats = Map.empty\<rparr>)\<rparr>))"

definition Material_Set_texture :: "handle \<Rightarrow> string \<Rightarrow> handle \<Rightarrow> unit io" where
  "Material_Set_texture m name t =
     invoke (Call_Set_texture m name t) (\<lambda>s.
       ((), s\<lparr>materials := (materials s)
                 (m := (materials s m)\<lparr>mat_Textures := (mat_Textures (materials s m))(name \<mapsto> t)\<rparr>)\<rparr>))"

definition Material_Set_float :: "handle \<Rightarrow> string \<Rightarrow> fexp \<Rightarrow> unit io" where
  "Material_Set_float m name v =
     invoke (Call_Set_float m name v) (\<lambda>s.
       ((), s\<lparr>materials := (materials s)
                 (m := (materials s m)\<lparr>mat_Floats := (mat_Floats (materials s m))(name \<mapsto> v)\<rparr>)\<rparr>))"

definition Texture2D_LoadFromFile :: "string \<Rightarrow> bool \<Rightarrow> bool \<Rightarrow> bool \<Rightarrow> handle io" where
  "Texture2D_LoadFromFile file b1 b2 b3 =
     invoke (Call_LoadFromFile file b1 b2 b3) (\<lambda>s.
       let (h, s) = alloc s
       in (h, s\<lparr>textures := (textures s)(h := LoadedFromFile file b1 b2 b3)\<rparr>))"

definition make_Texture2D :: "Texture2dDescription \<Rightarrow> handle io" where
  "make_Texture2D d =
     invoke (Call_make_Texture2D d) (\<lambda>s.
       let (h, s) = alloc s in (h, s\<lparr>textures := (textures s)(h := Texture2D d None)\<rparr>))"

fun set_data :: "Texture2dData \<Rightarrow> Texture2D \<Rightarrow> Texture2D" where
  "set_data d (Texture2D desc _) = Texture2D desc (Some d)"
| "set_data d t = t"

definition Texture2D_SetData :: "handle \<Rightarrow> Texture2dData \<Rightarrow> unit io" where
  "Texture2D_SetData h d =
     invoke (Call_SetData h d) (\<lambda>s.
       ((), s\<lparr>textures := (textures s)(h := set_data d (textures s h))\<rparr>))"

definition make_FrameBuffer :: "int \<Rightarrow> int \<Rightarrow> int option \<Rightarrow> handle io" where
  "make_FrameBuffer w h n =
     invoke (Call_make_FrameBuffer w h n) (\<lambda>s.
       let (b, s) = alloc s
       in (b, s\<lparr>framebuffers := (framebuffers s)
                  (b := \<lparr>fb_Width = w, fb_Height = h, fb_NumSamples = n, fb_Attachments = [],
                         fb_Validated = False, fb_DebugName = None, fb_CloneOf = None\<rparr>)\<rparr>))"

definition FrameBuffer_AddAttachment :: "handle \<Rightarrow> RenderBufferDesc \<Rightarrow> unit io" where
  "FrameBuffer_AddAttachment b d =
     invoke (Call_AddAttachment b d) (\<lambda>s.
       ((), s\<lparr>framebuffers := (framebuffers s)
                 (b := (framebuffers s b)
                    \<lparr>fb_Attachments := fb_Attachments (framebuffers s b) @ [d]\<rparr>)\<rparr>))"

definition FrameBuffer_Validate :: "handle \<Rightarrow> unit io" where
  "FrameBuffer_Validate b =
     invoke (Call_Validate b) (\<lambda>s.
       ((), s\<lparr>framebuffers := (framebuffers s)
                 (b := (framebuffers s b)\<lparr>fb_Validated := True\<rparr>)\<rparr>))"

definition FrameBuffer_SetDebugName :: "handle \<Rightarrow> string \<Rightarrow> unit io" where
  "FrameBuffer_SetDebugName b name =
     invoke (Call_SetDebugName b name) (\<lambda>s.
       ((), s\<lparr>framebuffers := (framebuffers s)
                 (b := (framebuffers s b)\<lparr>fb_DebugName := Some name\<rparr>)\<rparr>))"

definition FrameBuffer_Clone :: "handle \<Rightarrow> handle io" where
  "FrameBuffer_Clone b =
     invoke (Call_Clone b) (\<lambda>s.
       let (c, s) = alloc s
       in (c, s\<lparr>framebuffers := (framebuffers s)
                  (c := (framebuffers s b)\<lparr>fb_CloneOf := Some b\<rparr>)\<rparr>))"

definition Scene_CreateEntity :: "handle \<Rightarrow> entity io" where
  "Scene_CreateEntity sc =
     invoke (Call_CreateEntity sc) (\<lambda>s.
       let e = fresh_entity (entities (scenes s sc))
       in (e, upd_scene sc (\<lambda>S. S\<lparr>entities := entities S @ [e],
                 Transforms := (Transforms S)(e \<mapsto> \<lparr>tr_Position = None, tr_LookAt = None\<rparr>)\<rparr>) s))"

text \<open>
  \<^verbatim>\<open>Registry().assign<T>(entity)\<close> and \<^verbatim>\<open>Registry().get<T>(entity)\<close> return a
  reference to the component; the model's reference is the entity, in its scene.
\<close>

definition assign_RenderableComponent :: "handle \<Rightarrow> entity \<Rightarrow> entity io" where
  "assign_RenderableComponent sc e =
     invoke (Call_assign RenderableC sc e) (\<lambda>s.
       (e, upd_scene sc (\<lambda>S. S\<lparr>Renderables := (Renderables S)
              (e \<mapsto> \<lparr>rc_Mesh = None, rc_Material = None\<rparr>)\<rparr>) s))"

definition assign_CameraComponent :: "handle \<Rightarrow> entity \<Rightarrow> entity io" where
  "assign_CameraComponent sc e =
     invoke (Call_assign CameraC sc e) (\<lambda>s.
       (e, upd_scene sc (\<lambda>S. S\<lparr>Cameras := (Cameras S)
              (e \<mapsto> \<lparr>cam_BackBuffer = None, cam_FrontBuffer = None,
                      cam_IsMainCamera = None, cam_Projection = None\<rparr>)\<rparr>) s))"

definition assign_PointLightComponent :: "handle \<Rightarrow> entity \<Rightarrow> entity io" where
  "assign_PointLightComponent sc e =
     invoke (Call_assign PointLightC sc e) (\<lambda>s.
       (e, upd_scene sc (\<lambda>S. S\<lparr>PointLights := (PointLights S)
              (e \<mapsto> \<lparr>pl_Color = None, pl_Attenuation = None\<rparr>)\<rparr>) s))"

definition assign_ShadowLight :: "handle \<Rightarrow> entity \<Rightarrow> entity io" where
  "assign_ShadowLight sc e =
     invoke (Call_assign ShadowLightC sc e) (\<lambda>s.
       (e, upd_scene sc (\<lambda>S. S\<lparr>ShadowLights := (ShadowLights S)
              (e \<mapsto> \<lparr>sl_ShadowBuffer = None, sl_Projection = None,
                      sl_Attenuation = None, sl_Color = None\<rparr>)\<rparr>) s))"

definition get_Transform :: "handle \<Rightarrow> entity \<Rightarrow> entity io" where
  "get_Transform sc e = invoke (Call_get_Transform sc e) (\<lambda>s. (e, s))"

definition Scene_AddBehaviour :: "handle \<Rightarrow> entity \<Rightarrow> behaviour \<Rightarrow> unit io" where
  "Scene_AddBehaviour sc e b =
     invoke (Call_AddBehaviour sc e b) (\<lambda>s.
       ((), upd_scene sc (\<lambda>S. S\<lparr>behaviours := (behaviours S)(e := behaviours S e @ [b])\<rparr>) s))"

definition Transform_SetPosition :: "handle \<Rightarrow> entity \<Rightarrow> vec3 \<Rightarrow> unit io" where
  "Transform_SetPosition sc e pos =
     invoke (Call_SetPosition sc e pos) (\<lambda>s.
       ((), upd_scene sc (\<lambda>S. S\<lparr>Transforms := (Transforms S)
               (e := map_option (\<lambda>t. t\<lparr>tr_Position := Some pos\<rparr>) (Transforms S e))\<rparr>) s))"

definition Transform_LookAt :: "handle \<Rightarrow> entity \<Rightarrow> vec3 \<Rightarrow> vec3 \<Rightarrow> unit io" where
  "Transform_LookAt sc e target up =
     invoke (Call_LookAt sc e target up) (\<lambda>s.
       ((), upd_scene sc (\<lambda>S. S\<lparr>Transforms := (Transforms S)
               (e := map_option (\<lambda>t. t\<lparr>tr_LookAt := Some (target, up)\<rparr>) (Transforms S e))\<rparr>) s))"

text \<open>
  Writes to the fields of a component through its reference. They are plain stores into
  the registry's memory, not calls.
\<close>

definition write_Renderable ::
  "handle \<Rightarrow> entity \<Rightarrow> (RenderableComponent \<Rightarrow> RenderableComponent) \<Rightarrow> unit io" where
  "write_Renderable sc e f =
     modify (upd_scene sc (\<lambda>S. S\<lparr>Renderables := (Renderables S)
               (e := map_option f (Renderables S e))\<rparr>))"

definition write_Camera ::
  "handle \<Rightarrow> entity \<Rightarrow> (CameraComponent \<Rightarrow> CameraComponent) \<Rightarrow> unit io" where
  "write_Camera sc e f =
     modify (upd_scene sc (\<lambda>S. S\<lparr>Cameras := (Cameras S)(e := map_option f (Cameras S e))\<rparr>))"

definition write_PointLight ::
  "handle \<Rightarrow> entity \<Rightarrow> (PointLightComponent \<Rightarrow> PointLightComponent) \<Rightarrow> unit io" where
  "write_PointLight sc e f =
     modify (upd_scene sc (\<lambda>S. S\<lparr>PointLights := (PointLights S)
               (e := map_option f (PointLights S e))\<rparr>))"

definition write_ShadowLight ::
  "handle \<Rightarrow> entity \<Rightarrow> (ShadowLight \<Rightarrow> ShadowLight) \<Rightarrow> unit io" where
  "write_ShadowLight sc e f =
     modify (upd_scene sc (\<lambda>S. S\<lparr>ShadowLights := (ShadowLights S)
               (e := map_option f (ShadowLights S e))\<rparr>))"

text \<open>
  The accessors \<^verbatim>\<open>Application::Get()\<close>, \<^verbatim>\<open>GetWindow()\<close>, \<^verbatim>\<open>GetWidth()\<close>,
  \<^verbatim>\<open>GetHeight()\<close> and \<^verbatim>\<open>Registry()\<close> read the state and do nothing else.
\<close>

definition Window_GetWidth :: "int io" where
  "Window_GetWidth = gets window_Width"

definition Window_GetHeight :: "int io" where
  "Window_GetHeight = gets window_Height"

section \<open>SceneBuildLayer.cpp\<close>

subsection \<open>CreateShadowCaster\<close>

fun ivec2_x :: "ivec2 \<Rightarrow> int" where
  "ivec2_x (ivec2 a b) = a"

fun ivec2_y :: "ivec2 \<Rightarrow> int" where
  "ivec2_y (ivec2 a b) = b"

text \<open>
  \<open>entityOut\<close> and \<open>name\<close> are pointers: \<open>None\<close> is \<^verbatim>\<open>nullptr\<close>. The value returned
  is the reference to the light component, that is the entity that carries it.
\<close>

definition CreateShadowCaster ::
  "handle \<Rightarrow> addr option \<Rightarrow> vec3 \<Rightarrow> vec3 \<Rightarrow> vec3 \<Rightarrow> fexp \<Rightarrow> fexp \<Rightarrow> ivec2 \<Rightarrow> string option
     \<Rightarrow> entity io" where
  "CreateShadowCaster scene entityOut pos target up distance fov bufferSize name =
     (let depth = \<lparr>ShaderReadable = True, Attachment = Depth, Format = Depth32\<rparr> in
      bind_io (make_FrameBuffer (ivec2_x bufferSize) (ivec2_y bufferSize) None) (\<lambda>shadowBuffer.
      bind_io (FrameBuffer_AddAttachment shadowBuffer depth) (\<lambda>_.
      bind_io (FrameBuffer_Validate shadowBuffer) (\<lambda>_.
      bind_io (case name of
                 Some n \<Rightarrow> FrameBuffer_SetDebugName shadowBuffer n
               | None \<Rightarrow> return_io ()) (\<lambda>_.
      bind_io (Scene_CreateEntity scene) (\<lambda>entity.
      bind_io (assign_ShadowLight scene entity) (\<lambda>light.
      bind_io (write_ShadowLight scene light
                 (\<lambda>l. l\<lparr>sl_ShadowBuffer := Some shadowBuffer\<rparr>)) (\<lambda>_.
      bind_io (write_ShadowLight scene light
                 (\<lambda>l. l\<lparr>sl_Projection := Some (glm_perspective (glm_radians fov)
                    (Div (OfInt (ivec2_x bufferSize)) (OfInt (ivec2_y bufferSize)))
                    (Lit 0.25) distance)\<rparr>)) (\<lambda>_.
      bind_io (write_ShadowLight scene light
                 (\<lambda>l. l\<lparr>sl_Attenuation := Some (Div (Lit 1) distance)\<rparr>)) (\<lambda>_.
      bind_io (write_ShadowLight scene light
                 (\<lambda>l. l\<lparr>sl_Color := Some (vec3_all (Lit 1))\<rparr>)) (\<lambda>_.
      bind_io (get_Transform scene entity) (\<lambda>t.
      bind_io (Transform_SetPosition scene t pos) (\<lambda>_.
      bind_io (Transform_LookAt scene t target up) (\<lambda>_.
      bind_io (case entityOut of
                 Some p \<Rightarrow> modify (\<lambda>s. s\<lparr>entity_vars := (entity_vars s)(p := entity)\<rparr>)
               | None \<Rightarrow> return_io ()) (\<lambda>_.
      return_io light)))))))))))))))"

subsection \<open>CreateSolidTexture\<close>

text \<open>
  The static \<^verbatim>\<open>std::unordered_map<glm::vec4, Texture2D::Sptr>\<close> is a list of entries,
  oldest first. \<^verbatim>\<open>find\<close> looks for an entry whose key is \<^verbatim>\<open>==\<close> to the colour;
  \<^verbatim>\<open>cache[color] = result\<close> overwrites such an entry, or adds a new one when there is
  none.
\<close>

definition cache_find :: "float vec4 \<Rightarrow> (float vec4 \<times> handle) list \<Rightarrow> handle option" where
  "cache_find c kvs = map_option snd (find (\<lambda>kv. vec4_eq (fst kv) c) kvs)"

definition cache_put ::
  "float vec4 \<Rightarrow> handle \<Rightarrow> (float vec4 \<times> handle) list \<Rightarrow> (float vec4 \<times> handle) list" where
  "cache_put c t kvs =
     (if list_ex (\<lambda>kv. vec4_eq (fst kv) c) kvs
      then map (\<lambda>kv. if vec4_eq (fst kv) c then (fst kv, t) else kv) kvs
      else kvs @ [(c, t)])"

definition CreateSolidTexture :: "float vec4 \<Rightarrow> handle io" where
  "CreateSolidTexture color =
     bind_io (gets cache) (\<lambda>kvs.
     case cache_find color kvs of
        Some t \<Rightarrow> return_io t
      | None \<Rightarrow>
         (let desc = \<lparr>desc_Width = 1, desc_Height = 1, desc_Format = RGBA8,
                      desc_MagFilter = MagNearest, desc_MinFilter = MinNearest,
                      desc_MipmapLevels = 1, desc_WrapS = ClampToEdge,
                      desc_WrapT = ClampToEdge\<rparr>;
              data = \<lparr>data_Width = 1, data_Height = 1, data_Format = Rgba,
                      data_Type = Float, data_Data = color\<rparr> in
          bind_io (make_Texture2D desc) (\<lambda>result.
          bind_io (Texture2D_SetData result data) (\<lambda>_.
          bind_io (modify (\<lambda>s. s\<lparr>cache := cache_put color result (cache s)\<rparr>)) (\<lambda>_.
          return_io result)))))"

subsection \<open>SceneBuilder::Initialize\<close>

text \<open>
  The function is one sequence of statements. It is given here in the order of the
  source, in parts: the two shaders (lines 120 to 129), the four materials (lines 132 to
  150), the three blocks that each make a renderable entity (lines 154 to 187), the
  camera (lines 192 to 240) and the loop over the point lights (lines 243 to 260).
\<close>

definition Initialize_shaders :: "(handle \<times> handle) io" where
  "Initialize_shaders =
     bind_io make_Shader (\<lambda>shader.
     bind_io (Shader_LoadPart shader VertexShader ''shaders/lighting.vs.glsl'') (\<lambda>_.
     bind_io (Shader_LoadPart shader FragmentShader ''shaders/forward.fs.glsl'') (\<lambda>_.
     bind_io (Shader_Link shader) (\<lambda>_.
     bind_io make_Shader (\<lambda>emissiveShader.
     bind_io (Shader_LoadPart emissiveShader VertexShader ''shaders/lighting.vs.glsl'') (\<lambda>_.
     bind_io (Shader_LoadPart emissiveShader FragmentShader
                ''shaders/forward-emissive.fs.glsl'') (\<lambda>_.
     bind_io (Shader_Link emissiveShader) (\<lambda>_.
     return_io (shader, emissiveShader)))))))))"

text \<open>The value returned is \<^verbatim>\<open>monkeyMat\<close> and \<^verbatim>\<open>paddleMat\<close>, the two that are used later.\<close>

definition Initialize_materials :: "handle \<Rightarrow> handle \<Rightarrow> (handle \<times> handle) io" where
  "Initialize_materials shader emissiveShader =
     bind_io (make_Material emissiveShader) (\<lambda>monkeyMat.
     bind_io (Texture2D_LoadFromFile ''matrix.png'' False True True) (\<lambda>t.
     bind_io (Material_Set_texture monkeyMat ''s_Albedo'' t) (\<lambda>_.
     bind_io (Texture2D_LoadFromFile ''monkey_emissive.png'' False True True) (\<lambda>t.
     bind_io (Material_Set_texture monkeyMat ''s_Emissive'' t) (\<lambda>_.
     bind_io (Material_Set_float monkeyMat ''a_EmissiveStrength'' (Lit 4)) (\<lambda>_.
     bind_io (make_Material emissiveShader) (\<lambda>paddleMat.
     bind_io (Texture2D_LoadFromFile ''marble.png'' False True True) (\<lambda>t.
     bind_io (Material_Set_texture paddleMat ''s_Albedo'' t) (\<lambda>_.
     bind_io (Texture2D_LoadFromFile ''monkey_emissive.png'' False True True) (\<lambda>t.
     bind_io (Material_Set_texture paddleMat ''s_Emissive'' t) (\<lambda>_.
     bind_io (Material_Set_float paddleMat ''a_EmissiveStrength'' (Lit 10)) (\<lambda>_.
     bind_io (make_Material shader) (\<lambda>marbleMat.
     bind_io (Texture2D_LoadFromFile ''marble.png'' False True True) (\<lambda>t.
     bind_io (Material_Set_texture marbleMat ''s_Albedo'' t) (\<lambda>_.
     bind_io (make_Material emissiveShader) (\<lambda>mat2.
     bind_io (Texture2D_LoadFromFile ''polka.png'' False True True) (\<lambda>t.
     bind_io (Material_Set_texture mat2 ''s_Albedo'' t) (\<lambda>_.
     bind_io (Texture2D_LoadFromFile ''polka.png'' False True True) (\<lambda>t.
     bind_io (Material_Set_texture mat2 ''s_Emissive'' t) (\<lambda>_.
     bind_io (Material_Set_float mat2 ''a_EmissiveStrength'' (Lit 1)) (\<lambda>_.
     return_io (monkeyMat, paddleMat))))))))))))))))))))))"

text \<open>Lines 154 to 163: the entity with the mesh of \<^verbatim>\<open>data2\<close>.\<close>

definition Initialize_monkey :: "handle \<Rightarrow> MeshData \<Rightarrow> handle \<Rightarrow> unit io" where
  "Initialize_monkey scene data2 paddleMat =
     bind_io (Scene_CreateEntity scene) (\<lambda>test.
     bind_io (assign_RenderableComponent scene test) (\<lambda>renderable.
     bind_io (MeshBuilder_Bake data2) (\<lambda>m.
     bind_io (write_Renderable scene renderable (\<lambda>r. r\<lparr>rc_Mesh := Some m\<rparr>)) (\<lambda>_.
     bind_io (write_Renderable scene renderable (\<lambda>r. r\<lparr>rc_Material := Some paddleMat\<rparr>)) (\<lambda>_.
     bind_io (get_Transform scene test) (\<lambda>t.
     Scene_AddBehaviour scene test (ControlBehaviour (vec3_all (Lit 1)))))))))"

text \<open>
  Lines 166 to 175 and 178 to 187: an entity with the mesh of \<^verbatim>\<open>data\<close>; the two blocks
  differ in the speed \<open>a\<close> of the rotation, \<^verbatim>\<open>45.0f\<close> and \<^verbatim>\<open>-45.0f\<close>.
\<close>

definition Initialize_monkey23 :: "handle \<Rightarrow> MeshData \<Rightarrow> handle \<Rightarrow> fexp \<Rightarrow> unit io" where
  "Initialize_monkey23 scene data monkeyMat a =
     bind_io (Scene_CreateEntity scene) (\<lambda>test.
     bind_io (assign_RenderableComponent scene test) (\<lambda>renderable.
     bind_io (MeshBuilder_Bake data) (\<lambda>m.
     bind_io (write_Renderable scene renderable (\<lambda>r. r\<lparr>rc_Mesh := Some m\<rparr>)) (\<lambda>_.
     bind_io (write_Renderable scene renderable (\<lambda>r. r\<lparr>rc_Material := Some monkeyMat\<rparr>)) (\<lambda>_.
     bind_io (get_Transform scene test) (\<lambda>t.
     bind_io (Scene_AddBehaviour scene test (RotateBehaviour (vec3 a a a))) (\<lambda>_.
     Scene_AddBehaviour scene test RandomBehaviour)))))))"

definition Initialize_camera :: "handle \<Rightarrow> unit io" where
  "Initialize_camera scene =
     (let mainColor = \<lparr>ShaderReadable = True, Attachment = Color0, Format = ColorRgb8\<rparr>;
          normalBuffer = \<lparr>ShaderReadable = True, Attachment = Color1, Format = ColorRgb10\<rparr>;
          emissiveBuffer = \<lparr>ShaderReadable = True, Attachment = Color2, Format = ColorRgb10\<rparr>;
          depth = \<lparr>ShaderReadable = True, Attachment = Depth, Format = Depth32\<rparr> in
      bind_io Window_GetWidth (\<lambda>width.
      bind_io Window_GetHeight (\<lambda>height.
      bind_io (make_FrameBuffer width height (Some 4)) (\<lambda>buffer.
      bind_io (FrameBuffer_AddAttachment buffer mainColor) (\<lambda>_.
      bind_io (FrameBuffer_AddAttachment buffer normalBuffer) (\<lambda>_.
      bind_io (FrameBuffer_AddAttachment buffer emissiveBuffer) (\<lambda>_.
      bind_io (FrameBuffer_AddAttachment buffer depth) (\<lambda>_.
      bind_io (FrameBuffer_Validate buffer) (\<lambda>_.
      bind_io (FrameBuffer_SetDebugName buffer ''MainBuffer'') (\<lambda>_.
      bind_io (Scene_CreateEntity scene) (\<lambda>camera.
      bind_io (assign_CameraComponent scene camera) (\<lambda>cam.
      bind_io (write_Camera scene cam (\<lambda>c. c\<lparr>cam_BackBuffer := Some buffer\<rparr>)) (\<lambda>_.
      bind_io (FrameBuffer_Clone buffer) (\<lambda>clone.
      bind_io (write_Camera scene cam (\<lambda>c. c\<lparr>cam_FrontBuffer := Some clone\<rparr>)) (\<lambda>_.
      bind_io (write_Camera scene cam (\<lambda>c. c\<lparr>cam_IsMainCamera := Some True\<rparr>)) (\<lambda>_.
      bind_io (write_Camera scene cam
                 (\<lambda>c. c\<lparr>cam_Projection := Some (glm_perspective (glm_radians (Lit 60))
                    (Lit 1) (Lit 0.1) (Lit 1000))\<rparr>)) (\<lambda>_.
      bind_io (get_Transform scene camera) (\<lambda>camTransform.
      bind_io (Transform_SetPosition scene camTransform
                 (vec3 (Lit 0) (Lit 10) (Lit 5))) (\<lambda>_.
      bind_io (Transform_LookAt scene camTransform
                 (vec3 (OfInt 0) (OfInt 0) (OfInt 0)) (vec3 (OfInt 0) (OfInt 1) (OfInt 0))) (\<lambda>_.
      bind_io (assign_RenderableComponent scene camera) (\<lambda>renderable.
      return_io ())))))))))))))))))))))"

text \<open>
  The loop \<^verbatim>\<open>for (int i = 0; i < 1; i++)\<close>, from its counter \<open>i\<close> on. \<open>step\<close> is
  the local of that name.
\<close>

function Initialize_lights :: "handle \<Rightarrow> fexp \<Rightarrow> int \<Rightarrow> unit io" where
  "Initialize_lights scene step i =
     (if i < 1 then
        bind_io (Scene_CreateEntity scene) (\<lambda>entity.
        bind_io (assign_PointLightComponent scene entity) (\<lambda>light.
        bind_io (write_PointLight scene light
                   (\<lambda>l. l\<lparr>pl_Color := Some (vec3_mul (vec3_div
                      (vec3 (Add (glm_sin (Mul (OfInt (- i)) step)) (Lit 1))
                            (Add (glm_cos (Mul (OfInt (- i)) step)) (Lit 1))
                            (Add (glm_sin (Add (Mul (OfInt (- i)) step) glm_pi)) (Lit 1)))
                      (Lit 2)) (Lit 0.1))\<rparr>)) (\<lambda>_.
        bind_io (write_PointLight scene light
                   (\<lambda>l. l\<lparr>pl_Attenuation := Some (Div (Lit 1) (Lit 10))\<rparr>)) (\<lambda>_.
        bind_io (get_Transform scene entity) (\<lambda>t.
        bind_io (Transform_SetPosition scene t
                   (vec3 (Mul (glm_cos (Mul step (OfInt i))) (Lit 20)) (Lit 2)
                         (Mul (glm_sin (Mul step (OfInt i))) (Lit 20)))) (\<lambda>_.
        bind_io (Scene_AddBehaviour scene entity
                   (LightFlickerBehaviour (Lit 2) (Lit 0.6) (Lit 1.2))) (\<lambda>_.
        Initialize_lights scene step (i + 1))))))))
      else return_io ())"
  by pat_completeness auto
termination
  by (relation "measure (\<lambda>(scene, step, i). nat (1 - i))") auto

declare Initialize_lights.simps [simp del]

definition SceneBuilder_Initialize :: "unit io" where
  "SceneBuilder_Initialize =
     bind_io (SceneManager_RegisterScene ''main'') (\<lambda>scene.
     bind_io (SceneManager_SetCurrentScene ''main'') (\<lambda>_.
     bind_io (ObjLoader_LoadObj ''paddle.obj'' (vec4_all (Lit 1))) (\<lambda>data.
     bind_io (ObjLoader_LoadObj ''ball.obj'' (vec4_all (Lit 1))) (\<lambda>data2.
     bind_io Initialize_shaders (\<lambda>(shader, emissiveShader).
     bind_io (Initialize_materials shader emissiveShader) (\<lambda>(monkeyMat, paddleMat).
     bind_io (Initialize_monkey scene data2 paddleMat) (\<lambda>_.
     bind_io (Initialize_monkey23 scene data monkeyMat (Lit 45)) (\<lambda>_.
     bind_io (Initialize_monkey23 scene data monkeyMat (Lit (- 45))) (\<lambda>_.
     bind_io (Initialize_camera scene) (\<lambda>_.
     (let numMonkeys = 6; step = Div glm_two_pi (OfInt numMonkeys)
      in Initialize_lights scene step 0)))))))))))"

section \<open>Runs\<close>

text \<open>
  \<open>never\<close> is the engine that raises nothing, \<open>quiet s\<close> the state \<open>s\<close> with that
  engine, and \<open>engine0\<close> a state to run the functions from: nothing registered, nothing
  allocated, an 800 by 600 window.
\<close>

definition never :: "call list \<Rightarrow> call \<Rightarrow> error option" where
  "never hist c = None"

definition quiet :: "state \<Rightarrow> state" where
  "quiet s = s\<lparr>faults := never\<rparr>"

definition engine0 :: state where
  "engine0 =
     \<lparr>faults = never, calls = [], next_handle = 0, window_Width = 800, window_Height = 600,
      scene_registry = Map.empty, current_scene = None, scenes = (\<lambda>_. empty_Scene),
      framebuffers = (\<lambda>_. \<lparr>fb_Width = 0, fb_Height = 0, fb_NumSamples = None,
         fb_Attachments = [], fb_Validated = False, fb_DebugName = None, fb_CloneOf = None\<rparr>),
      shaders = (\<lambda>_. \<lparr>sh_Parts = [], sh_Linked = False\<rparr>),
      materials = (\<lambda>_. \<lparr>mat_Shader = 0, mat_Textures = Map.empty, mat_Floats = Map.empty\<rparr>),
      textures = (\<lambda>_. LoadedFromFile [] False False False),
      meshes = (\<lambda>_. LoadedObj [] (vec4_all (Lit 0))),
      entity_vars = (\<lambda>_. 0), cache = []\<rparr>"

text \<open>
  \<open>no_fault flt hist cs\<close>: made in this order after the calls \<open>hist\<close>, none of the calls
  \<open>cs\<close> raises.
\<close>

fun no_fault :: "(call list \<Rightarrow> call \<Rightarrow> error option) \<Rightarrow> call list \<Rightarrow> call list \<Rightarrow> bool" where
  "no_fault flt hist [] = True"
| "no_fault flt hist (c # cs) = (flt hist c = None \<and> no_fault flt (hist @ [c]) cs)"

text \<open>
  A computation is \<open>faithful\<close> when it handles no error. Let \<open>new\<close> be the calls it
  makes with an engine that raises nothing, where it returns \<open>a\<close> and leaves \<open>t\<close>. With
  the engine of \<open>s\<close> it returns the same value and leaves the same state if none of
  these calls raises; otherwise it ends with the error of the first of them that raises:
  it does not catch that error, change it, or return a value in its place.
\<close>

definition faithful :: "'a io \<Rightarrow> bool" where
  "faithful m =
     (\<forall>s. \<exists>a t new.
        m (quiet s) = Inr (a, t) \<and> faults t = never \<and> calls t = calls s @ new \<and>
        (if no_fault (faults s) (calls s) new
         then m s = Inr (a, t\<lparr>faults := faults s\<rparr>)
         else \<exists>pre c post e.
                new = pre @ c # post \<and> no_fault (faults s) (calls s) pre \<and>
                faults s (calls s @ pre) c = Some e \<and> m s = Inl e))"

text \<open>An effect that leaves the log and the failure behaviour alone and does not read them.\<close>

definition inert :: "(state \<Rightarrow> 'a \<times> state) \<Rightarrow> bool" where
  "inert eff =
     (\<forall>s. faults (snd (eff s)) = faults s \<and> calls (snd (eff s)) = calls s \<and>
          eff (quiet s) = (fst (eff s), quiet (snd (eff s))))"

text \<open>\<open>engine1\<close> is \<open>engine0\<close> with an audio engine that cannot play \<^verbatim>\<open>AH.wav\<close>.\<close>

definition engine1 :: state where
  "engine1 =
     engine0\<lparr>faults := (\<lambda>hist c. if c = Call_PlaySound ''AH.wav''
                                   then Some (EngineError ''no device'') else None)\<rparr>"

text \<open>
  \<open>engine2\<close> is \<open>engine1\<close> after other work: five objects allocated, a 1024 by 768
  window, and other contents in the caller's variables.
\<close>

definition engine2 :: state where
  "engine2 =
     engine1\<lparr>next_handle := 5, window_Width := 1024, window_Height := 768,
             entity_vars := (\<lambda>_. 9)\<rparr>"

section \<open>What SceneBuilder::Initialize leaves\<close>

text \<open>
  The calls that \<^verbatim>\<open>SceneBuilder::Initialize\<close> makes, the scene that it builds and the
  state that it leaves when no call raises, written out. \<open>h\<close> is the first unused
  handle when the function starts, and \<open>w\<close> and \<open>ht\<close> are the width and the height
  of the window. Lemma \<open>Initialize_run\<close> proves that the function computes them.
\<close>

definition main_attachments :: "RenderBufferDesc list" where
  "main_attachments =
     [\<lparr>ShaderReadable = True, Attachment = Color0, Format = ColorRgb8\<rparr>,
      \<lparr>ShaderReadable = True, Attachment = Color1, Format = ColorRgb10\<rparr>,
      \<lparr>ShaderReadable = True, Attachment = Color2, Format = ColorRgb10\<rparr>,
      \<lparr>ShaderReadable = True, Attachment = Depth, Format = Depth32\<rparr>]"

definition light_Color :: vec3 where
  "light_Color =
     vec3 (Mul (Div (Add (glm_sin (Mul (OfInt 0) (Div glm_two_pi (OfInt 6)))) (Lit 1)) (Lit 2))
             (Lit 0.1))
          (Mul (Div (Add (glm_cos (Mul (OfInt 0) (Div glm_two_pi (OfInt 6)))) (Lit 1)) (Lit 2))
             (Lit 0.1))
          (Mul (Div (Add (glm_sin (Add (Mul (OfInt 0) (Div glm_two_pi (OfInt 6))) glm_pi))
                       (Lit 1)) (Lit 2))
             (Lit 0.1))"

definition light_Position :: vec3 where
  "light_Position =
     vec3 (Mul (glm_cos (Mul (Div glm_two_pi (OfInt 6)) (OfInt 0))) (Lit 20)) (Lit 2)
          (Mul (glm_sin (Mul (Div glm_two_pi (OfInt 6)) (OfInt 0))) (Lit 20))"

definition Initialize_calls :: "handle \<Rightarrow> int \<Rightarrow> int \<Rightarrow> call list" where
  "Initialize_calls h w ht =
     [Call_RegisterScene ''main'', Call_SetCurrentScene ''main'',
      Call_LoadObj ''paddle.obj'' (vec4 (Lit 1) (Lit 1) (Lit 1) (Lit 1)),
      Call_LoadObj ''ball.obj'' (vec4 (Lit 1) (Lit 1) (Lit 1) (Lit 1)),
      Call_make_Shader,
      Call_LoadPart (h + 1) VertexShader ''shaders/lighting.vs.glsl'',
      Call_LoadPart (h + 1) FragmentShader ''shaders/forward.fs.glsl'',
      Call_Link (h + 1),
      Call_make_Shader,
      Call_LoadPart (h + 2) VertexShader ''shaders/lighting.vs.glsl'',
      Call_LoadPart (h + 2) FragmentShader ''shaders/forward-emissive.fs.glsl'',
      Call_Link (h + 2),
      Call_make_Material (h + 2),
      Call_LoadFromFile ''matrix.png'' False True True,
      Call_Set_texture (h + 3) ''s_Albedo'' (h + 4),
      Call_LoadFromFile ''monkey_emissive.png'' False True True,
      Call_Set_texture (h + 3) ''s_Emissive'' (h + 5),
      Call_Set_float (h + 3) ''a_EmissiveStrength'' (Lit 4),
      Call_make_Material (h + 2),
      Call_LoadFromFile ''marble.png'' False True True,
      Call_Set_texture (h + 6) ''s_Albedo'' (h + 7),
      Call_LoadFromFile ''monkey_emissive.png'' False True True,
      Call_Set_texture (h + 6) ''s_Emissive'' (h + 8),
      Call_Set_float (h + 6) ''a_EmissiveStrength'' (Lit 10),
      Call_make_Material (h + 1),
      Call_LoadFromFile ''marble.png'' False True True,
      Call_Set_texture (h + 9) ''s_Albedo'' (h + 10),
      Call_make_Material (h + 2),
      Call_LoadFromFile ''polka.png'' False True True,
      Call_Set_texture (h + 11) ''s_Albedo'' (h + 12),
      Call_LoadFromFile ''polka.png'' False True True,
      Call_Set_texture (h + 11) ''s_Emissive'' (h + 13),
      Call_Set_float (h + 11) ''a_EmissiveStrength'' (Lit 1),
      Call_CreateEntity h,
      Call_assign RenderableC h 0,
      Call_Bake (LoadedObj ''ball.obj'' (vec4 (Lit 1) (Lit 1) (Lit 1) (Lit 1))),
      Call_get_Transform h 0,
      Call_AddBehaviour h 0 (ControlBehaviour (vec3 (Lit 1) (Lit 1) (Lit 1))),
      Call_CreateEntity h,
      Call_assign RenderableC h 1,
      Call_Bake (LoadedObj ''paddle.obj'' (vec4 (Lit 1) (Lit 1) (Lit 1) (Lit 1))),
      Call_get_Transform h 1,
      Call_AddBehaviour h 1 (RotateBehaviour (vec3 (Lit 45) (Lit 45) (Lit 45))),
      Call_AddBehaviour h 1 RandomBehaviour,
      Call_CreateEntity h,
      Call_assign RenderableC h 2,
      Call_Bake (LoadedObj ''paddle.obj'' (vec4 (Lit 1) (Lit 1) (Lit 1) (Lit 1))),
      Call_get_Transform h 2,
      Call_AddBehaviour h 2 (RotateBehaviour (vec3 (Lit (- 45)) (Lit (- 45)) (Lit (- 45)))),
      Call_AddBehaviour h 2 RandomBehaviour,
      Call_make_FrameBuffer w ht (Some 4),
      Call_AddAttachment (h + 17) (main_attachments ! 0),
      Call_AddAttachment (h + 17) (main_attachments ! 1),
      Call_AddAttachment (h + 17) (main_attachments ! 2),
      Call_AddAttachment (h + 17) (main_attachments ! 3),
      Call_Validate (h + 17),
      Call_SetDebugName (h + 17) ''MainBuffer'',
      Call_CreateEntity h,
      Call_assign CameraC h 3,
      Call_Clone (h + 17),
      Call_get_Transform h 3,
      Call_SetPosition h 3 (vec3 (Lit 0) (Lit 10) (Lit 5)),
      Call_LookAt h 3 (vec3 (OfInt 0) (OfInt 0) (OfInt 0)) (vec3 (OfInt 0) (OfInt 1) (OfInt 0)),
      Call_assign RenderableC h 3,
      Call_CreateEntity h,
      Call_assign PointLightC h 4,
      Call_get_Transform h 4,
      Call_SetPosition h 4 light_Position,
      Call_AddBehaviour h 4 (LightFlickerBehaviour (Lit 2) (Lit 0.6) (Lit 1.2))]"

definition Initialize_scene :: "handle \<Rightarrow> Scene" where
  "Initialize_scene h =
     \<lparr>entities = [0, 1, 2, 3, 4],
      Transforms =
        [0 \<mapsto> \<lparr>tr_Position = None, tr_LookAt = None\<rparr>,
         1 \<mapsto> \<lparr>tr_Position = None, tr_LookAt = None\<rparr>,
         2 \<mapsto> \<lparr>tr_Position = None, tr_LookAt = None\<rparr>,
         3 \<mapsto> \<lparr>tr_Position = Some (vec3 (Lit 0) (Lit 10) (Lit 5)),
               tr_LookAt = Some (vec3 (OfInt 0) (OfInt 0) (OfInt 0),
                                 vec3 (OfInt 0) (OfInt 1) (OfInt 0))\<rparr>,
         4 \<mapsto> \<lparr>tr_Position = Some light_Position, tr_LookAt = None\<rparr>],
      Renderables =
        [0 \<mapsto> \<lparr>rc_Mesh = Some (h + 14), rc_Material = Some (h + 6)\<rparr>,
         1 \<mapsto> \<lparr>rc_Mesh = Some (h + 15), rc_Material = Some (h + 3)\<rparr>,
         2 \<mapsto> \<lparr>rc_Mesh = Some (h + 16), rc_Material = Some (h + 3)\<rparr>,
         3 \<mapsto> \<lparr>rc_Mesh = None, rc_Material = None\<rparr>],
      Cameras =
        [3 \<mapsto> \<lparr>cam_BackBuffer = Some (h + 17), cam_FrontBuffer = Some (h + 18),
               cam_IsMainCamera = Some True,
               cam_Projection = Some (glm_perspective (glm_radians (Lit 60)) (Lit 1)
                                        (Lit 0.1) (Lit 1000))\<rparr>],
      PointLights =
        [4 \<mapsto> \<lparr>pl_Color = Some light_Color,
               pl_Attenuation = Some (Div (Lit 1) (Lit 10))\<rparr>],
      ShadowLights = Map.empty,
      behaviours = (\<lambda>_. [])
        (0 := [ControlBehaviour (vec3 (Lit 1) (Lit 1) (Lit 1))],
         1 := [RotateBehaviour (vec3 (Lit 45) (Lit 45) (Lit 45)), RandomBehaviour],
         2 := [RotateBehaviour (vec3 (Lit (- 45)) (Lit (- 45)) (Lit (- 45))), RandomBehaviour],
         4 := [LightFlickerBehaviour (Lit 2) (Lit 0.6) (Lit 1.2)])\<rparr>"

definition main_FrameBuffer :: "int \<Rightarrow> int \<Rightarrow> FrameBuffer" where
  "main_FrameBuffer w ht =
     \<lparr>fb_Width = w, fb_Height = ht, fb_NumSamples = Some 4, fb_Attachments = main_attachments,
      fb_Validated = True, fb_DebugName = Some ''MainBuffer'', fb_CloneOf = None\<rparr>"

definition Initialize_result :: "state \<Rightarrow> state" where
  "Initialize_result s =
     (let h = next_handle s; w = window_Width s; ht = window_Height s in
      s\<lparr>calls := calls s @ Initialize_calls h w ht,
        next_handle := h + 19,
        scene_registry := (scene_registry s)(''main'' \<mapsto> h),
        current_scene := Some ''main'',
        scenes := (scenes s)(h := Initialize_scene h),
        shaders := (shaders s)
          (h + 1 := \<lparr>sh_Parts = [(VertexShader, ''shaders/lighting.vs.glsl''),
                               (FragmentShader, ''shaders/forward.fs.glsl'')],
                    sh_Linked = True\<rparr>,
           h + 2 := \<lparr>sh_Parts = [(VertexShader, ''shaders/lighting.vs.glsl''),
                               (FragmentShader, ''shaders/forward-emissive.fs.glsl'')],
                    sh_Linked = True\<rparr>),
        materials := (materials s)
          (h + 3 := \<lparr>mat_Shader = h + 2,
                    mat_Textures = [''s_Albedo'' \<mapsto> h + 4, ''s_Emissive'' \<mapsto> h + 5],
                    mat_Floats = [''a_EmissiveStrength'' \<mapsto> Lit 4]\<rparr>,
           h + 6 := \<lparr>mat_Shader = h + 2,
                    mat_Textures = [''s_Albedo'' \<mapsto> h + 7, ''s_Emissive'' \<mapsto> h + 8],
                    mat_Floats = [''a_EmissiveStrength'' \<mapsto> Lit 10]\<rparr>,
           h + 9 := \<lparr>mat_Shader = h + 1,
                    mat_Textures = [''s_Albedo'' \<mapsto> h + 10],
                    mat_Floats = Map.empty\<rparr>,
           h + 11 := \<lparr>mat_Shader = h + 2,
                     mat_Textures = [''s_Albedo'' \<mapsto> h + 12, ''s_Emissive'' \<mapsto> h + 13],
                     mat_Floats = [''a_EmissiveStrength'' \<mapsto> Lit 1]\<rparr>),
        textures := (textures s)
          (h + 4 := LoadedFromFile ''matrix.png'' False True True,
           h + 5 := LoadedFromFile ''monkey_emissive.png'' False True True,
           h + 7 := LoadedFromFile ''marble.png'' False True True,
           h + 8 := LoadedFromFile ''monkey_emissive.png'' False True True,
           h + 10 := LoadedFromFile ''marble.png'' False True True,
           h + 12 := LoadedFromFile ''polka.png'' False True True,
           h + 13 := LoadedFromFile ''polka.png'' False True True),
        meshes := (meshes s)
          (h + 14 := LoadedObj ''ball.obj'' (vec4 (Lit 1) (Lit 1) (Lit 1) (Lit 1)),
           h + 15 := LoadedObj ''paddle.obj'' (vec4 (Lit 1) (Lit 1) (Lit 1) (Lit 1)),
           h + 16 := LoadedObj ''paddle.obj'' (vec4 (Lit 1) (Lit 1) (Lit 1) (Lit 1))),
        framebuffers := (framebuffers s)
          (h + 17 := main_FrameBuffer w ht,
           h + 18 := (main_FrameBuffer w ht)\<lparr>fb_CloneOf := Some (h + 17)\<rparr>)\<rparr>)"

section \<open>Observations\<close>

text \<open>The entities of a scene that carry a camera, and those that carry a light.\<close>

definition camera_entities :: "Scene \<Rightarrow> entity list" where
  "camera_entities S = filter (\<lambda>e. Cameras S e \<noteq> None) (entities S)"

definition light_entities :: "Scene \<Rightarrow> entity list" where
  "light_entities S =
     filter (\<lambda>e. PointLights S e \<noteq> None \<or> ShadowLights S e \<noteq> None) (entities S)"

text \<open>The file that the mesh of an entity's renderable was loaded from, if it has a mesh.\<close>

definition mesh_file :: "state \<Rightarrow> Scene \<Rightarrow> entity \<Rightarrow> string option" where
  "mesh_file t S e =
     (case Renderables S e of
        None \<Rightarrow> None
      | Some r \<Rightarrow>
          (case rc_Mesh r of
             None \<Rightarrow> None
           | Some m \<Rightarrow> (case meshes t m of LoadedObj file col \<Rightarrow> Some file)))"

text \<open>The calls that attach a camera component to an entity.\<close>

fun assigns_camera :: "call \<Rightarrow> bool" where
  "assigns_camera (Call_assign CameraC sc e) = True"
| "assigns_camera c = False"

text \<open>
  An object with every handle in it advanced by \<open>h\<close>. Advancing is injective, so
  an object of a run that started at handle \<open>h1\<close>, advanced by \<open>h2\<close>, equals an
  object of a run that started at \<open>h2\<close>, advanced by \<open>h1\<close>, exactly when the two
  objects hold the same values and each handle is as far from the start of its run in
  one as in the other.
\<close>

definition rebase :: "handle \<Rightarrow> handle option \<Rightarrow> handle option" where
  "rebase h = map_option (\<lambda>k. k + h)"

definition rebase_Scene :: "handle \<Rightarrow> Scene \<Rightarrow> Scene" where
  "rebase_Scene h S =
     S\<lparr>Renderables := (\<lambda>e. map_option
          (\<lambda>r. \<lparr>rc_Mesh = rebase h (rc_Mesh r), rc_Material = rebase h (rc_Material r)\<rparr>)
          (Renderables S e)),
       Cameras := (\<lambda>e. map_option
          (\<lambda>c. c\<lparr>cam_BackBuffer := rebase h (cam_BackBuffer c),
                 cam_FrontBuffer := rebase h (cam_FrontBuffer c)\<rparr>)
          (Cameras S e)),
       ShadowLights := (\<lambda>e. map_option
          (\<lambda>l. l\<lparr>sl_ShadowBuffer := rebase h (sl_ShadowBuffer l)\<rparr>)
          (ShadowLights S e))\<rparr>"

definition rebase_Material :: "handle \<Rightarrow> Material \<Rightarrow> Material" where
  "rebase_Material h M =
     M\<lparr>mat_Shader := mat_Shader M + h, mat_Textures := (\<lambda>n. rebase h (mat_Textures M n))\<rparr>"

definition rebase_FrameBuffer :: "handle \<Rightarrow> FrameBuffer \<Rightarrow> FrameBuffer" where
  "rebase_FrameBuffer h F = F\<lparr>fb_CloneOf := rebase h (fb_CloneOf F)\<rparr>"

text \<open>The calls that create an entity, a mesh, a material or a light.\<close>

fun creates :: "call \<Rightarrow> bool" where
  "creates (Call_CreateEntity sc) = True"
| "creates (Call_Bake d) = True"
| "creates (Call_make_Material sh) = True"
| "creates (Call_assign PointLightC sc e) = True"
| "creates (Call_assign ShadowLightC sc e) = True"
| "creates c = False"

text \<open>The state a run ends in, and the width and height of a framebuffer in a state.\<close>

definition final_state :: "error + ('a \<times> state) \<Rightarrow> state option" where
  "final_state r = (case r of Inl e \<Rightarrow> None | Inr (a, t) \<Rightarrow> Some t)"

definition buffer_size :: "handle \<Rightarrow> state \<Rightarrow> int \<times> int" where
  "buffer_size b t = (fb_Width (framebuffers t b), fb_Height (framebuffers t b))"

text \<open>
  The width and height of the back buffer of every camera of the scene registered as
  \<^verbatim>\<open>main\<close>.
\<close>

definition back_buffer_sizes :: "state \<Rightarrow> (int \<times> int) list" where
  "back_buffer_sizes t =
     (case scene_registry t ''main'' of
        None \<Rightarrow> []
      | Some sc \<Rightarrow>
          concat (map (\<lambda>e. case Cameras (scenes t sc) e of
                              None \<Rightarrow> []
                            | Some cam \<Rightarrow>
                                (case cam_BackBuffer cam of
                                   None \<Rightarrow> []
                                 | Some b \<Rightarrow> [buffer_size b t]))
                      (entities (scenes t sc))))"

text \<open>A colour whose red component is a NaN (a quiet NaN, \<^verbatim>\<open>0x7FC00000\<close>).\<close>

definition nan_color :: "float vec4" where
  "nan_color = vec4 0x7FC00000 0 0 0"

text \<open>Two calls of \<^verbatim>\<open>CreateSolidTexture\<close> with the same colour, one after the other.\<close>

definition CreateSolidTexture_twice :: "float vec4 \<Rightarrow> (handle \<times> handle) io" where
  "CreateSolidTexture_twice color =
     bind_io (CreateSolidTexture color) (\<lambda>t1.
     bind_io (CreateSolidTexture color) (\<lambda>t2.
     return_io (t1, t2)))"

section \<open>Sequencing and engine calls\<close>

lemma bind_io_Inr:
  "bind_io m f s = Inr r \<longleftrightarrow> (\<exists>a s'. m s = Inr (a, s') \<and> f a s' = Inr r)"
  by (auto simp: bind_io_def split: sum.splits)

lemma invoke_Inr:
  "invoke c eff s = Inr r \<longleftrightarrow>
     faults s (calls s) c = None \<and> r = eff (s\<lparr>calls := calls s @ [c]\<rparr>)"
  by (auto simp: invoke_def split: option.splits)

lemma modify_Inr: "modify f s = Inr r \<longleftrightarrow> r = ((), f s)"
  by (auto simp: modify_def)

lemma return_io_Inr: "return_io a s = Inr r \<longleftrightarrow> r = (a, s)"
  by (auto simp: return_io_def)

lemma gets_Inr: "gets f s = Inr r \<longleftrightarrow> r = (f s, s)"
  by (auto simp: gets_def)

lemmas io_Inr = bind_io_Inr invoke_Inr modify_Inr return_io_Inr gets_Inr

lemma invoke_never:
  "faults s = never \<Longrightarrow> invoke c eff s = Inr (eff (s\<lparr>calls := calls s @ [c]\<rparr>))"
  by (simp add: invoke_def never_def)

lemmas engine_defs = SceneManager_RegisterScene_def SceneManager_SetCurrentScene_def
  ObjLoader_LoadObj_def MeshBuilder_Bake_def make_Shader_def Shader_LoadPart_def Shader_Link_def
  make_Material_def Material_Set_texture_def Material_Set_float_def Texture2D_LoadFromFile_def
  make_Texture2D_def Texture2D_SetData_def make_FrameBuffer_def FrameBuffer_AddAttachment_def
  FrameBuffer_Validate_def FrameBuffer_SetDebugName_def FrameBuffer_Clone_def Scene_CreateEntity_def
  assign_RenderableComponent_def assign_CameraComponent_def assign_PointLightComponent_def
  assign_ShadowLight_def get_Transform_def Scene_AddBehaviour_def Transform_SetPosition_def
  Transform_LookAt_def AudioEngine_Init_def AudioEngine_LoadSound_def AudioEngine_PlaySound_def
  AudioEngine_Shutdown_def AudioEngine_Update_def

lemmas write_defs =
  write_Renderable_def write_Camera_def write_PointLight_def write_ShadowLight_def

lemma no_fault_append:
  "no_fault flt hist (xs @ ys) \<longleftrightarrow> no_fault flt hist xs \<and> no_fault flt (hist @ xs) ys"
  by (induction xs arbitrary: hist) auto

lemma quiet_simps:
  "faults (quiet s) = never" "calls (quiet s) = calls s"
  "quiet (s\<lparr>calls := cs\<rparr>) = (quiet s)\<lparr>calls := cs\<rparr>"
  by (simp_all add: quiet_def)

section \<open>Every function of the sources is faithful\<close>

lemma restore_faults: "faults u = x \<Longrightarrow> (quiet u)\<lparr>faults := x\<rparr> = u"
  by (cases u) (simp add: quiet_def)

lemma quiet_restore: "faults t = never \<Longrightarrow> quiet (t\<lparr>faults := x\<rparr>) = t"
  by (cases t) (simp add: quiet_def)

lemma faithful_return: "faithful (return_io a)"
  unfolding faithful_def
proof (intro allI)
  fix s
  have "return_io a (quiet s) = Inr (a, quiet s)" "faults (quiet s) = never"
    "calls (quiet s) = calls s @ []" "return_io a s = Inr (a, (quiet s)\<lparr>faults := faults s\<rparr>)"
    by (simp_all add: return_io_def quiet_simps restore_faults)
  then show "\<exists>b t new. return_io a (quiet s) = Inr (b, t) \<and> faults t = never \<and>
      calls t = calls s @ new \<and>
      (if no_fault (faults s) (calls s) new then return_io a s = Inr (b, t\<lparr>faults := faults s\<rparr>)
       else \<exists>pre c post e. new = pre @ c # post \<and> no_fault (faults s) (calls s) pre \<and>
              faults s (calls s @ pre) c = Some e \<and> return_io a s = Inl e)"
    by (intro exI[of _ a] exI[of _ "quiet s"] exI[of _ "[]"]) simp
qed

lemma faithful_gets:
  assumes "\<And>s. f (quiet s) = f s"
  shows "faithful (gets f)"
  unfolding faithful_def
proof (intro allI)
  fix s
  have "gets f (quiet s) = Inr (f s, quiet s)" "faults (quiet s) = never"
    "calls (quiet s) = calls s @ []" "gets f s = Inr (f s, (quiet s)\<lparr>faults := faults s\<rparr>)"
    using assms by (simp_all add: gets_def quiet_simps restore_faults)
  then show "\<exists>b t new. gets f (quiet s) = Inr (b, t) \<and> faults t = never \<and>
      calls t = calls s @ new \<and>
      (if no_fault (faults s) (calls s) new then gets f s = Inr (b, t\<lparr>faults := faults s\<rparr>)
       else \<exists>pre c post e. new = pre @ c # post \<and> no_fault (faults s) (calls s) pre \<and>
              faults s (calls s @ pre) c = Some e \<and> gets f s = Inl e)"
    by (intro exI[of _ "f s"] exI[of _ "quiet s"] exI[of _ "[]"]) simp
qed

lemma faithful_modify:
  assumes "\<And>s. faults (f s) = faults s" "\<And>s. calls (f s) = calls s"
    "\<And>s. f (quiet s) = quiet (f s)"
  shows "faithful (modify f)"
  unfolding faithful_def
proof (intro allI)
  fix s
  have "modify f (quiet s) = Inr ((), quiet (f s))" "faults (quiet (f s)) = never"
    "calls (quiet (f s)) = calls s @ []"
    "modify f s = Inr ((), (quiet (f s))\<lparr>faults := faults s\<rparr>)"
    using assms by (simp_all add: modify_def quiet_simps restore_faults)
  then show "\<exists>b t new. modify f (quiet s) = Inr (b, t) \<and> faults t = never \<and>
      calls t = calls s @ new \<and>
      (if no_fault (faults s) (calls s) new then modify f s = Inr (b, t\<lparr>faults := faults s\<rparr>)
       else \<exists>pre c post e. new = pre @ c # post \<and> no_fault (faults s) (calls s) pre \<and>
              faults s (calls s @ pre) c = Some e \<and> modify f s = Inl e)"
    by (intro exI[of _ "()"] exI[of _ "quiet (f s)"] exI[of _ "[]"]) simp
qed

lemma faithful_invoke:
  assumes "inert eff"
  shows "faithful (invoke c eff)"
  unfolding faithful_def
proof (intro allI)
  fix s :: state
  let ?u = "s\<lparr>calls := calls s @ [c]\<rparr>"
  let ?a = "fst (eff ?u)"
  let ?t = "quiet (snd (eff ?u))"
  from assms have 1: "faults (snd (eff ?u)) = faults s" "calls (snd (eff ?u)) = calls s @ [c]"
    "eff (quiet ?u) = (?a, ?t)"
    by (simp_all add: inert_def)
  have 2: "invoke c eff (quiet s) = Inr (?a, ?t)"
    using 1(3) by (simp add: invoke_def quiet_simps never_def)
  have 3: "faults ?t = never" "calls ?t = calls s @ [c]"
    using 1 by (simp_all add: quiet_simps)
  have 4: "?t\<lparr>faults := faults s\<rparr> = snd (eff ?u)"
    using 1(1) by (rule restore_faults)
  have 5: "if no_fault (faults s) (calls s) [c]
      then invoke c eff s = Inr (?a, ?t\<lparr>faults := faults s\<rparr>)
      else \<exists>pre c' post e. [c] = pre @ c' # post \<and> no_fault (faults s) (calls s) pre \<and>
             faults s (calls s @ pre) c' = Some e \<and> invoke c eff s = Inl e"
  proof (cases "faults s (calls s) c")
    case None
    then show ?thesis by (simp add: invoke_def 4)
  next
    case (Some e)
    then have "[c] = [] @ c # [] \<and> no_fault (faults s) (calls s) [] \<and>
        faults s (calls s @ []) c = Some e \<and> invoke c eff s = Inl e"
      by (simp add: invoke_def)
    then have "\<exists>pre c' post e. [c] = pre @ c' # post \<and> no_fault (faults s) (calls s) pre \<and>
        faults s (calls s @ pre) c' = Some e \<and> invoke c eff s = Inl e"
      by blast
    with Some show ?thesis by simp
  qed
  from 2 3 5 show "\<exists>a t new. invoke c eff (quiet s) = Inr (a, t) \<and> faults t = never \<and>
      calls t = calls s @ new \<and>
      (if no_fault (faults s) (calls s) new then invoke c eff s = Inr (a, t\<lparr>faults := faults s\<rparr>)
       else \<exists>pre c' post e. new = pre @ c' # post \<and> no_fault (faults s) (calls s) pre \<and>
              faults s (calls s @ pre) c' = Some e \<and> invoke c eff s = Inl e)"
    by blast
qed

lemma faithful_bind:
  assumes m: "faithful m" and f: "\<And>a. faithful (f a)"
  shows "faithful (bind_io m f)"
  unfolding faithful_def
proof (intro allI)
  fix s
  from m obtain a t1 new1 where
    m1: "m (quiet s) = Inr (a, t1)" "faults t1 = never" "calls t1 = calls s @ new1"
    and m2: "if no_fault (faults s) (calls s) new1 then m s = Inr (a, t1\<lparr>faults := faults s\<rparr>)
      else \<exists>pre c post e. new1 = pre @ c # post \<and> no_fault (faults s) (calls s) pre \<and>
             faults s (calls s @ pre) c = Some e \<and> m s = Inl e"
    unfolding faithful_def by blast
  let ?s1 = "t1\<lparr>faults := faults s\<rparr>"
  have s1: "quiet ?s1 = t1" "faults ?s1 = faults s" "calls ?s1 = calls s @ new1"
    using m1 by (simp_all add: quiet_restore)
  from f[of a] obtain b t2 new2 where
    f1: "f a (quiet ?s1) = Inr (b, t2)" "faults t2 = never" "calls t2 = calls ?s1 @ new2"
    and f2: "if no_fault (faults ?s1) (calls ?s1) new2
      then f a ?s1 = Inr (b, t2\<lparr>faults := faults ?s1\<rparr>)
      else \<exists>pre c post e. new2 = pre @ c # post \<and> no_fault (faults ?s1) (calls ?s1) pre \<and>
             faults ?s1 (calls ?s1 @ pre) c = Some e \<and> f a ?s1 = Inl e"
    unfolding faithful_def by blast
  have q: "bind_io m f (quiet s) = Inr (b, t2)"
    using m1 f1 s1 by (simp add: bind_io_def)
  have c: "calls t2 = calls s @ (new1 @ new2)"
    using f1 s1 by simp
  have alt: "if no_fault (faults s) (calls s) (new1 @ new2)
      then bind_io m f s = Inr (b, t2\<lparr>faults := faults s\<rparr>)
      else \<exists>pre c post e. new1 @ new2 = pre @ c # post \<and> no_fault (faults s) (calls s) pre \<and>
             faults s (calls s @ pre) c = Some e \<and> bind_io m f s = Inl e"
  proof (cases "no_fault (faults s) (calls s) new1")
    case False
    with m2 obtain pre c post e where
      "new1 = pre @ c # post" "no_fault (faults s) (calls s) pre"
      "faults s (calls s @ pre) c = Some e" "m s = Inl e"
      by auto
    then have "new1 @ new2 = pre @ c # (post @ new2) \<and> no_fault (faults s) (calls s) pre \<and>
        faults s (calls s @ pre) c = Some e \<and> bind_io m f s = Inl e"
      by (simp add: bind_io_def)
    then have "\<exists>pre c post e. new1 @ new2 = pre @ c # post \<and>
        no_fault (faults s) (calls s) pre \<and>
        faults s (calls s @ pre) c = Some e \<and> bind_io m f s = Inl e"
      by blast
    with False show ?thesis by (simp add: no_fault_append)
  next
    case True
    with m2 have ms: "m s = Inr (a, ?s1)" by simp
    show ?thesis
    proof (cases "no_fault (faults s) (calls s @ new1) new2")
      case nf: True
      with f2 s1 have "f a ?s1 = Inr (b, t2\<lparr>faults := faults s\<rparr>)" by simp
      with ms True nf show ?thesis by (simp add: bind_io_def no_fault_append)
    next
      case nf: False
      with f2 s1 obtain pre c post e where
        "new2 = pre @ c # post" "no_fault (faults s) (calls s @ new1) pre"
        "faults s (calls s @ new1 @ pre) c = Some e" "f a ?s1 = Inl e"
        by auto
      with ms True have "new1 @ new2 = (new1 @ pre) @ c # post \<and>
          no_fault (faults s) (calls s) (new1 @ pre) \<and>
          faults s (calls s @ (new1 @ pre)) c = Some e \<and> bind_io m f s = Inl e"
        by (simp add: bind_io_def no_fault_append)
      then have "\<exists>pre c post e. new1 @ new2 = pre @ c # post \<and>
          no_fault (faults s) (calls s) pre \<and>
          faults s (calls s @ pre) c = Some e \<and> bind_io m f s = Inl e"
        by blast
      with nf show ?thesis by (simp add: no_fault_append)
    qed
  qed
  from q f1(2) c alt show "\<exists>a t new. bind_io m f (quiet s) = Inr (a, t) \<and> faults t = never \<and>
      calls t = calls s @ new \<and>
      (if no_fault (faults s) (calls s) new then bind_io m f s = Inr (a, t\<lparr>faults := faults s\<rparr>)
       else \<exists>pre c post e. new = pre @ c # post \<and> no_fault (faults s) (calls s) pre \<and>
              faults s (calls s @ pre) c = Some e \<and> bind_io m f s = Inl e)"
    by blast
qed

lemma faithful_case_prod:
  "(\<And>a b. faithful (f a b)) \<Longrightarrow> faithful (case p of (a, b) \<Rightarrow> f a b)"
  by (cases p) simp

lemma faithful_case_option:
  "faithful n \<Longrightarrow> (\<And>a. faithful (f a)) \<Longrightarrow> faithful (case x of None \<Rightarrow> n | Some a \<Rightarrow> f a)"
  by (cases x) simp_all

lemma faithful_engine:
  "faithful AudioEngine_Init" "faithful (AudioEngine_LoadSound name b1 b2 b3)"
  "faithful (AudioEngine_PlaySound name)" "faithful AudioEngine_Shutdown"
  "faithful AudioEngine_Update"
  "faithful (SceneManager_RegisterScene name)" "faithful (SceneManager_SetCurrentScene name)"
  "faithful (ObjLoader_LoadObj file col)" "faithful (MeshBuilder_Bake d)"
  "faithful make_Shader" "faithful (Shader_LoadPart h stage file)" "faithful (Shader_Link h)"
  "faithful (make_Material h)" "faithful (Material_Set_texture h name t)"
  "faithful (Material_Set_float h name v)" "faithful (Texture2D_LoadFromFile file b1 b2 b3)"
  "faithful (make_Texture2D desc)" "faithful (Texture2D_SetData h dat)"
  "faithful (make_FrameBuffer w ht n)" "faithful (FrameBuffer_AddAttachment h rb)"
  "faithful (FrameBuffer_Validate h)" "faithful (FrameBuffer_SetDebugName h name)"
  "faithful (FrameBuffer_Clone h)" "faithful (Scene_CreateEntity sc)"
  "faithful (assign_RenderableComponent sc e)" "faithful (assign_CameraComponent sc e)"
  "faithful (assign_PointLightComponent sc e)" "faithful (assign_ShadowLight sc e)"
  "faithful (get_Transform sc e)" "faithful (Scene_AddBehaviour sc e b)"
  "faithful (Transform_SetPosition sc e pos)" "faithful (Transform_LookAt sc e target up)"
  unfolding engine_defs
  by (rule faithful_invoke,
      simp add: inert_def quiet_def alloc_def upd_scene_def split_def Let_def)+

lemma faithful_write:
  "faithful (write_Renderable sc e f1)" "faithful (write_Camera sc e f2)"
  "faithful (write_PointLight sc e f3)" "faithful (write_ShadowLight sc e f4)"
  "faithful (modify (\<lambda>s. s\<lparr>entity_vars := (entity_vars s)(p := e)\<rparr>))"
  "faithful (modify (\<lambda>s. s\<lparr>cache := cache_put c t (cache s)\<rparr>))"
  unfolding write_defs
  by (rule faithful_modify; simp add: quiet_def upd_scene_def)+

lemma faithful_getters:
  "faithful Window_GetWidth" "faithful Window_GetHeight" "faithful (gets cache)"
  unfolding Window_GetWidth_def Window_GetHeight_def
  by (rule faithful_gets, simp add: quiet_def)+

lemmas faithful_intros = faithful_bind faithful_return faithful_engine faithful_write
  faithful_getters faithful_case_prod faithful_case_option

lemma faithful_AudioLayer:
  "faithful AudioLayer_Initialize" "faithful AudioLayer_Shutdown" "faithful AudioLayer_Update"
  unfolding AudioLayer_Initialize_def AudioLayer_Shutdown_def AudioLayer_Update_def
  by (intro faithful_intros)+

lemma faithful_CreateShadowCaster:
  "faithful (CreateShadowCaster scene entityOut pos target up distance fov bufferSize name)"
  unfolding CreateShadowCaster_def Let_def
  by (intro faithful_intros)

lemma faithful_CreateSolidTexture: "faithful (CreateSolidTexture color)"
  unfolding CreateSolidTexture_def Let_def
  by (intro faithful_intros)

lemma faithful_Initialize_lights: "faithful (Initialize_lights scene step i)"
proof (induction scene step i rule: Initialize_lights.induct)
  case (1 scene step i)
  show ?case
  proof (cases "i < 1")
    case True
    note IH = 1[OF True]
    show ?thesis
      apply (subst Initialize_lights.simps)
      apply (simp only: True if_True)
      apply (intro faithful_intros IH)
      done
  next
    case False
    then show ?thesis
      by (subst Initialize_lights.simps) (simp only: if_False faithful_return)
  qed
qed

lemma faithful_parts:
  "faithful Initialize_shaders" "faithful (Initialize_materials shader emissiveShader)"
  "faithful (Initialize_monkey scene d mat)" "faithful (Initialize_monkey23 scene d mat a)"
  "faithful (Initialize_camera scene)"
  unfolding Initialize_shaders_def Initialize_materials_def Initialize_monkey_def
    Initialize_monkey23_def Initialize_camera_def Let_def
  by (intro faithful_intros)+

lemma faithful_Initialize: "faithful SceneBuilder_Initialize"
  unfolding SceneBuilder_Initialize_def Let_def
  by (intro faithful_intros faithful_parts faithful_Initialize_lights)


lemma faithful_Inr:
  assumes "faithful m" and "m s = Inr (a, s')"
  shows "m (quiet s) = Inr (a, quiet s') \<and> faults s' = faults s"
proof -
  from assms(1) obtain b t new where
    1: "m (quiet s) = Inr (b, t)" "faults t = never"
    and 2: "if no_fault (faults s) (calls s) new then m s = Inr (b, t\<lparr>faults := faults s\<rparr>)
      else \<exists>pre c post e. new = pre @ c # post \<and> no_fault (faults s) (calls s) pre \<and>
             faults s (calls s @ pre) c = Some e \<and> m s = Inl e"
    unfolding faithful_def by blast
  from 2 assms(2) have "a = b" "s' = t\<lparr>faults := faults s\<rparr>"
    by (auto split: if_splits)
  with 1 show ?thesis by (simp add: quiet_restore)
qed

lemma no_fault_never: "no_fault never hist cs"
  by (induction cs arbitrary: hist) (simp_all add: never_def)

section \<open>Running SceneBuilder::Initialize\<close>

text \<open>
  With an engine that raises nothing, the function returns and leaves the state
  \<open>Initialize_result\<close>; and whenever it returns, with any engine, that is the state it
  leaves.
\<close>

lemma fold_max_init: "fold max xs (a::nat) = max a (fold max xs 0)"
proof (induction xs arbitrary: a)
  case Nil
  show ?case by simp
next
  case (Cons x xs)
  have "fold max (x # xs) a = max (max x a) (fold max xs 0)"
    using Cons[of "max x a"] by simp
  also have "\<dots> = max a (max x (fold max xs 0))"
    by (simp add: max.commute max.left_commute)
  also have "\<dots> = max a (fold max (x # xs) 0)"
    using Cons[of "max x 0"] by simp
  finally show ?case .
qed

lemma fresh_entity_simps:
  "fresh_entity [] = 0" "fresh_entity (e # es) = max (Suc e) (fresh_entity es)"
  using fold_max_init[of "map Suc es" "Suc e"] by (simp_all add: fresh_entity_def)

lemma fresh_entity_greater: "e \<in> set es \<Longrightarrow> e < fresh_entity es"
  by (induction es) (auto simp: fresh_entity_simps)

lemma fresh_entity_fresh: "fresh_entity es \<notin> set es"
  using fresh_entity_greater[of "fresh_entity es" es] by auto

lemma handle_offsets:
  fixes h :: nat
  shows
    "h + 1 = Suc h"
    "h + 2 = Suc (Suc h)"
    "h + 3 = Suc (Suc (Suc h))"
    "h + 4 = Suc (Suc (Suc (Suc h)))"
    "h + 5 = Suc (Suc (Suc (Suc (Suc h))))"
    "h + 6 = Suc (Suc (Suc (Suc (Suc (Suc h)))))"
    "h + 7 = Suc (Suc (Suc (Suc (Suc (Suc (Suc h))))))"
    "h + 8 = Suc (Suc (Suc (Suc (Suc (Suc (Suc (Suc h)))))))"
    "h + 9 = Suc (Suc (Suc (Suc (Suc (Suc (Suc (Suc (Suc h))))))))"
    "h + 10 = Suc (Suc (Suc (Suc (Suc (Suc (Suc (Suc (Suc (Suc h)))))))))"
    "h + 11 = Suc (Suc (Suc (Suc (Suc (Suc (Suc (Suc (Suc (Suc (Suc h))))))))))"
    "h + 12 = Suc (Suc (Suc (Suc (Suc (Suc (Suc (Suc (Suc (Suc (Suc (Suc h)))))))))))"
    "h + 13 = Suc (Suc (Suc (Suc (Suc (Suc (Suc (Suc (Suc (Suc (Suc (Suc (Suc h))))))))))))"
    "h + 14 = Suc (Suc (Suc (Suc (Suc (Suc (Suc (Suc (Suc (Suc (Suc (Suc (Suc (Suc h)))))))))))))"
    "h + 15 = Suc (Suc (Suc (Suc (Suc (Suc (Suc (Suc (Suc (Suc (Suc (Suc (Suc (Suc (Suc h))))))))))))))"
    "h + 16 = Suc (Suc (Suc (Suc (Suc (Suc (Suc (Suc (Suc (Suc (Suc (Suc (Suc (Suc (Suc (Suc h)))))))))))))))"
    "h + 17 = Suc (Suc (Suc (Suc (Suc (Suc (Suc (Suc (Suc (Suc (Suc (Suc (Suc (Suc (Suc (Suc (Suc h))))))))))))))))"
    "h + 18 = Suc (Suc (Suc (Suc (Suc (Suc (Suc (Suc (Suc (Suc (Suc (Suc (Suc (Suc (Suc (Suc (Suc (Suc h)))))))))))))))))"
    "h + 19 = Suc (Suc (Suc (Suc (Suc (Suc (Suc (Suc (Suc (Suc (Suc (Suc (Suc (Suc (Suc (Suc (Suc (Suc (Suc h))))))))))))))))))"
  by simp_all

lemma entity_numbers: "(2::nat) = Suc (Suc 0)" "(3::nat) = Suc (Suc (Suc 0))" "(4::nat) = Suc (Suc (Suc (Suc 0)))"
  by simp_all

lemma Initialize_run:
  assumes "faults s = never"
  shows "SceneBuilder_Initialize s = Inr ((), Initialize_result s)"
  using assms
  apply (simp add: SceneBuilder_Initialize_def Initialize_shaders_def Initialize_materials_def
      Initialize_monkey_def Initialize_monkey23_def Initialize_camera_def
      Initialize_lights.simps engine_defs write_defs alloc_def upd_scene_def
      Window_GetWidth_def Window_GetHeight_def gets_def bind_io_def return_io_def modify_def
      invoke_never empty_Scene_def fresh_entity_simps vec3_all_def vec4_all_def Let_def
      split_def)
  apply (simp add: Initialize_result_def Initialize_calls_def Initialize_scene_def
      main_FrameBuffer_def main_attachments_def light_Color_def light_Position_def
      handle_offsets entity_numbers Let_def)
  done

lemma Initialize_result_quiet: "Initialize_result (quiet s) = quiet (Initialize_result s)"
  by (simp add: Initialize_result_def quiet_def Let_def)

lemma Initialize_cases:
  fixes s :: state
  defines "cs \<equiv> Initialize_calls (next_handle s) (window_Width s) (window_Height s)"
  shows "(no_fault (faults s) (calls s) cs \<and>
            SceneBuilder_Initialize s = Inr ((), Initialize_result s)) \<or>
         (\<exists>pre c post e. cs = pre @ c # post \<and> no_fault (faults s) (calls s) pre \<and>
            faults s (calls s @ pre) c = Some e \<and> SceneBuilder_Initialize s = Inl e)"
proof -
  from faithful_Initialize obtain a t new where
    1: "SceneBuilder_Initialize (quiet s) = Inr (a, t)" "calls t = calls s @ new"
    and 2: "if no_fault (faults s) (calls s) new
      then SceneBuilder_Initialize s = Inr (a, t\<lparr>faults := faults s\<rparr>)
      else \<exists>pre c post e. new = pre @ c # post \<and> no_fault (faults s) (calls s) pre \<and>
             faults s (calls s @ pre) c = Some e \<and> SceneBuilder_Initialize s = Inl e"
    unfolding faithful_def by blast
  have "SceneBuilder_Initialize (quiet s) = Inr ((), Initialize_result (quiet s))"
    by (rule Initialize_run) (simp add: quiet_simps)
  with 1 have t: "t = quiet (Initialize_result s)"
    by (simp add: Initialize_result_quiet)
  have "calls (Initialize_result s) = calls s @ cs"
    by (simp add: Initialize_result_def Let_def cs_def)
  with 1(2) t have new: "new = cs"
    by (simp add: quiet_simps)
  have "faults (Initialize_result s) = faults s"
    by (simp add: Initialize_result_def Let_def)
  then have "t\<lparr>faults := faults s\<rparr> = Initialize_result s"
    unfolding t by (rule restore_faults)
  with 2 new show ?thesis
    by (cases "no_fault (faults s) (calls s) cs") simp_all
qed

lemma Initialize_returns:
  assumes "no_fault (faults s) (calls s)
     (Initialize_calls (next_handle s) (window_Width s) (window_Height s))"
  shows "SceneBuilder_Initialize s = Inr ((), Initialize_result s)"
  using Initialize_cases[of s] assms by (auto simp: no_fault_append)

lemma Initialize_Inr:
  assumes "SceneBuilder_Initialize s = Inr (u, s')"
  shows "s' = Initialize_result s"
  using Initialize_cases[of s] assms by auto

lemma Initialize_Inr_no_fault:
  assumes "SceneBuilder_Initialize s = Inr (u, s')"
  shows "no_fault (faults s) (calls s)
     (Initialize_calls (next_handle s) (window_Width s) (window_Height s))"
  using Initialize_cases[of s] assms by auto

lemma Initialize_Inl:
  assumes "SceneBuilder_Initialize s = Inl e"
  shows "\<exists>pre c post.
     Initialize_calls (next_handle s) (window_Width s) (window_Height s) = pre @ c # post \<and>
     no_fault (faults s) (calls s) pre \<and> faults s (calls s @ pre) c = Some e"
  using Initialize_cases[of s] assms by auto

section \<open>AudioLayer::Initialize\<close>

text \<open>
  C1. \<^verbatim>\<open>AudioLayer::Initialize\<close> returns exactly when none of the three calls
  \<^verbatim>\<open>Init()\<close>, \<^verbatim>\<open>LoadSound("AH.wav", false, true, true)\<close>, \<^verbatim>\<open>PlaySound("AH.wav")\<close>
  raises, and then it has made these three calls, in this order, and has done nothing
  else: the state it leaves is the state it started in with the three calls logged.
\<close>

theorem AudioLayer_Initialize_calls:
  "AudioLayer_Initialize s = Inr (u, s') \<longleftrightarrow>
     no_fault (faults s) (calls s)
       [Call_Init, Call_LoadSound ''AH.wav'' False True True, Call_PlaySound ''AH.wav''] \<and>
     s' = s\<lparr>calls := calls s @
       [Call_Init, Call_LoadSound ''AH.wav'' False True True, Call_PlaySound ''AH.wav'']\<rparr>"
  by (auto simp: AudioLayer_Initialize_def AudioEngine_Init_def AudioEngine_LoadSound_def
      AudioEngine_PlaySound_def io_Inr)

theorem AudioLayer_Initialize_calls_witness:
  "AudioLayer_Initialize engine0 =
     Inr ((), engine0\<lparr>calls :=
       [Call_Init, Call_LoadSound ''AH.wav'' False True True, Call_PlaySound ''AH.wav'']\<rparr>)"
  using AudioLayer_Initialize_calls [of engine0 "()" "engine0\<lparr>calls :=
       [Call_Init, Call_LoadSound ''AH.wav'' False True True, Call_PlaySound ''AH.wav'']\<rparr>"]
  by (simp add: engine0_def never_def)

section \<open>Error handling\<close>

text \<open>
  C7. No function of the sources handles an error. Each of
  \<^verbatim>\<open>AudioLayer::Initialize\<close>, \<^verbatim>\<open>AudioLayer::Update\<close>, \<^verbatim>\<open>AudioLayer::Shutdown\<close>,
  \<^verbatim>\<open>SceneBuilder::Initialize\<close>, \<^verbatim>\<open>CreateShadowCaster\<close> and \<^verbatim>\<open>CreateSolidTexture\<close>
  is \<open>faithful\<close>: take the calls that the function makes when the engine raises
  nothing. If the engine raises at none of them, the function returns, with the same
  value and the same state. If the engine raises at one of them, the function ends with
  the error of the first call that raised, exactly as the engine gave it: the function
  does not return in spite of the error, does not end with another error, and puts no
  default in the place of the failed result.
\<close>

theorem errors_propagate_unchanged:
  "faithful AudioLayer_Initialize \<and> faithful AudioLayer_Update \<and>
   faithful AudioLayer_Shutdown \<and> faithful SceneBuilder_Initialize \<and>
   faithful (CreateShadowCaster scene entityOut pos target up distance fov bufferSize name) \<and>
   faithful (CreateSolidTexture color)"
  by (intro conjI faithful_AudioLayer faithful_Initialize
      faithful_CreateShadowCaster faithful_CreateSolidTexture)

theorem errors_propagate_unchanged_witness:
  "AudioLayer_Initialize engine1 = Inl (EngineError ''no device'')"
proof -
  have "faithful AudioLayer_Initialize"
    using errors_propagate_unchanged by (rule conjunct1)
  then obtain a t new where
    1: "AudioLayer_Initialize (quiet engine1) = Inr (a, t)" "calls t = calls engine1 @ new"
    and 2: "if no_fault (faults engine1) (calls engine1) new
      then AudioLayer_Initialize engine1 = Inr (a, t\<lparr>faults := faults engine1\<rparr>)
      else \<exists>pre c post e. new = pre @ c # post \<and>
             no_fault (faults engine1) (calls engine1) pre \<and>
             faults engine1 (calls engine1 @ pre) c = Some e \<and>
             AudioLayer_Initialize engine1 = Inl e"
    unfolding faithful_def by blast
  have "AudioLayer_Initialize (quiet engine1) =
      Inr ((), (quiet engine1)\<lparr>calls := [Call_Init, Call_LoadSound ''AH.wav'' False True True,
        Call_PlaySound ''AH.wav'']\<rparr>)"
    by (simp add: AudioLayer_Initialize_def AudioEngine_Init_def AudioEngine_LoadSound_def
        AudioEngine_PlaySound_def bind_io_def invoke_never quiet_simps engine1_def engine0_def)
  with 1 have new: "new = [Call_Init, Call_LoadSound ''AH.wav'' False True True,
      Call_PlaySound ''AH.wav'']"
    by (auto simp: engine1_def engine0_def)
  have "\<not> no_fault (faults engine1) (calls engine1) new"
    by (simp add: new engine1_def engine0_def)
  with 2 obtain pre c e where
    3: "faults engine1 (calls engine1 @ pre) c = Some e" "AudioLayer_Initialize engine1 = Inl e"
    by auto
  from 3(1) have "e = EngineError ''no device''"
    by (simp add: engine1_def split: if_splits)
  with 3(2) show ?thesis by simp
qed

section \<open>SceneBuilder::Initialize\<close>

lemma engine0_run: "SceneBuilder_Initialize engine0 = Inr ((), Initialize_result engine0)"
  by (rule Initialize_run) (simp add: engine0_def)

lemma Initialize_result_simps:
  "scene_registry (Initialize_result s) = (scene_registry s)(''main'' \<mapsto> next_handle s)"
  "current_scene (Initialize_result s) = Some ''main''"
  "scenes (Initialize_result s) = (scenes s)(next_handle s := Initialize_scene (next_handle s))"
  "calls (Initialize_result s) =
     calls s @ Initialize_calls (next_handle s) (window_Width s) (window_Height s)"
  "meshes (Initialize_result s) = (meshes s)
          (next_handle s + 14 := LoadedObj ''ball.obj'' (vec4 (Lit 1) (Lit 1) (Lit 1) (Lit 1)),
           next_handle s + 15 := LoadedObj ''paddle.obj'' (vec4 (Lit 1) (Lit 1) (Lit 1) (Lit 1)),
           next_handle s + 16 := LoadedObj ''paddle.obj'' (vec4 (Lit 1) (Lit 1) (Lit 1) (Lit 1)))"
  "framebuffers (Initialize_result s) = (framebuffers s)
          (next_handle s + 17 := main_FrameBuffer (window_Width s) (window_Height s),
           next_handle s + 18 := (main_FrameBuffer (window_Width s) (window_Height s))
              \<lparr>fb_CloneOf := Some (next_handle s + 17)\<rparr>)"
  by (simp_all add: Initialize_result_def Let_def)

lemma Initialize_calls_order:
  "take 2 (Initialize_calls h w ht) = [Call_RegisterScene ''main'', Call_SetCurrentScene ''main'']"
  "length (filter creates (Initialize_calls h w ht)) = 13"
  "\<forall>i<length (Initialize_calls h w ht). creates (Initialize_calls h w ht ! i) \<longrightarrow> 2 \<le> i"
proof -
  let ?new = "Initialize_calls h w ht"
  show "take 2 ?new = [Call_RegisterScene ''main'', Call_SetCurrentScene ''main'']"
    by (simp add: Initialize_calls_def)
  show "length (filter creates ?new) = 13"
    by (simp add: Initialize_calls_def)
  have 3: "\<not> creates (?new ! 0)" "\<not> creates (?new ! 1)"
    by (simp_all add: Initialize_calls_def)
  show "\<forall>i<length ?new. creates (?new ! i) \<longrightarrow> 2 \<le> i"
  proof (intro allI impI)
    fix i assume c: "creates (?new ! i)"
    have "i \<noteq> 0" using 3(1) c by (cases "i = 0") simp_all
    moreover have "i \<noteq> 1" using 3(2) c by (cases "i = 1") simp_all
    ultimately show "2 \<le> i" by linarith
  qed
qed

text \<open>
  C2. \<^verbatim>\<open>SceneBuilder::Initialize\<close> makes one sequence of engine calls. Its first two
  calls are \<^verbatim>\<open>RegisterScene("main")\<close> and then \<^verbatim>\<open>SetCurrentScene("main")\<close>; every
  call that creates an entity, a mesh, a material or a light comes after these two, and
  there are thirteen such calls. If the engine raises at none of the calls, the function
  returns. Whenever it returns, the engine raised at none of them, the function made
  them all in this order, and the scene \<^verbatim>\<open>main\<close> is registered and current. Whenever it
  ends with an error, the calls before some call of the sequence did not raise and the
  error is the one that the engine raised at that call.
\<close>

theorem Initialize_registers_main_first:
  "\<exists>new. take 2 new = [Call_RegisterScene ''main'', Call_SetCurrentScene ''main''] \<and>
     (\<forall>i<length new. creates (new ! i) \<longrightarrow> 2 \<le> i) \<and>
     length (filter creates new) = 13 \<and>
     (no_fault (faults s) (calls s) new \<longrightarrow>
        (\<exists>s'. SceneBuilder_Initialize s = Inr ((), s'))) \<and>
     (\<forall>u s'. SceneBuilder_Initialize s = Inr (u, s') \<longrightarrow>
        no_fault (faults s) (calls s) new \<and> calls s' = calls s @ new \<and>
        scene_registry s' ''main'' \<noteq> None \<and> current_scene s' = Some ''main'') \<and>
     (\<forall>e. SceneBuilder_Initialize s = Inl e \<longrightarrow>
        (\<exists>pre c post. new = pre @ c # post \<and> no_fault (faults s) (calls s) pre \<and>
           faults s (calls s @ pre) c = Some e))"
proof -
  let ?new = "Initialize_calls (next_handle s) (window_Width s) (window_Height s)"
  have 1: "no_fault (faults s) (calls s) ?new \<longrightarrow>
      (\<exists>s'. SceneBuilder_Initialize s = Inr ((), s'))"
    using Initialize_returns[of s] by blast
  have 2: "\<forall>u s'. SceneBuilder_Initialize s = Inr (u, s') \<longrightarrow>
      no_fault (faults s) (calls s) ?new \<and> calls s' = calls s @ ?new \<and>
      scene_registry s' ''main'' \<noteq> None \<and> current_scene s' = Some ''main''"
  proof (intro allI impI)
    fix u s' assume run: "SceneBuilder_Initialize s = Inr (u, s')"
    from Initialize_Inr[OF run] Initialize_Inr_no_fault[OF run]
    show "no_fault (faults s) (calls s) ?new \<and> calls s' = calls s @ ?new \<and>
      scene_registry s' ''main'' \<noteq> None \<and> current_scene s' = Some ''main''"
      by (simp add: Initialize_result_simps)
  qed
  have 3: "\<forall>e. SceneBuilder_Initialize s = Inl e \<longrightarrow>
      (\<exists>pre c post. ?new = pre @ c # post \<and> no_fault (faults s) (calls s) pre \<and>
         faults s (calls s @ pre) c = Some e)"
    using Initialize_Inl[of s] by blast
  from Initialize_calls_order[of "next_handle s" "window_Width s" "window_Height s"] 1 2 3
  show ?thesis
    by (intro exI[of _ ?new] conjI)
qed

theorem Initialize_registers_main_first_witness:
  "\<exists>s'. SceneBuilder_Initialize engine0 = Inr ((), s') \<and>
     take 2 (calls s') = [Call_RegisterScene ''main'', Call_SetCurrentScene ''main'']"
proof -
  from Initialize_registers_main_first [of engine0] obtain new where
    t: "take 2 new = [Call_RegisterScene ''main'', Call_SetCurrentScene ''main'']"
    and r: "no_fault (faults engine0) (calls engine0) new \<longrightarrow>
      (\<exists>s'. SceneBuilder_Initialize engine0 = Inr ((), s'))"
    and c: "\<forall>u s'. SceneBuilder_Initialize engine0 = Inr (u, s') \<longrightarrow>
      no_fault (faults engine0) (calls engine0) new \<and> calls s' = calls engine0 @ new \<and>
      scene_registry s' ''main'' \<noteq> None \<and> current_scene s' = Some ''main''"
    by blast
  have "no_fault (faults engine0) (calls engine0) new"
    by (simp add: engine0_def no_fault_never)
  with r obtain s' where run: "SceneBuilder_Initialize engine0 = Inr ((), s')" by blast
  with c have "calls s' = calls engine0 @ new" by blast
  then have "calls s' = new" by (simp add: engine0_def)
  with t run show ?thesis by blast
qed

lemma Initialize_result_stores:
  "next_handle (Initialize_result s) = next_handle s + 19"
  "shaders (Initialize_result s) = (shaders s)
          (next_handle s + 1 := \<lparr>sh_Parts = [(VertexShader, ''shaders/lighting.vs.glsl''),
                               (FragmentShader, ''shaders/forward.fs.glsl'')],
                    sh_Linked = True\<rparr>,
           next_handle s + 2 := \<lparr>sh_Parts = [(VertexShader, ''shaders/lighting.vs.glsl''),
                               (FragmentShader, ''shaders/forward-emissive.fs.glsl'')],
                    sh_Linked = True\<rparr>)"
  "materials (Initialize_result s) = (materials s)
          (next_handle s + 3 := \<lparr>mat_Shader = next_handle s + 2,
                    mat_Textures = [''s_Albedo'' \<mapsto> next_handle s + 4,
                                    ''s_Emissive'' \<mapsto> next_handle s + 5],
                    mat_Floats = [''a_EmissiveStrength'' \<mapsto> Lit 4]\<rparr>,
           next_handle s + 6 := \<lparr>mat_Shader = next_handle s + 2,
                    mat_Textures = [''s_Albedo'' \<mapsto> next_handle s + 7,
                                    ''s_Emissive'' \<mapsto> next_handle s + 8],
                    mat_Floats = [''a_EmissiveStrength'' \<mapsto> Lit 10]\<rparr>,
           next_handle s + 9 := \<lparr>mat_Shader = next_handle s + 1,
                    mat_Textures = [''s_Albedo'' \<mapsto> next_handle s + 10],
                    mat_Floats = Map.empty\<rparr>,
           next_handle s + 11 := \<lparr>mat_Shader = next_handle s + 2,
                     mat_Textures = [''s_Albedo'' \<mapsto> next_handle s + 12,
                                     ''s_Emissive'' \<mapsto> next_handle s + 13],
                     mat_Floats = [''a_EmissiveStrength'' \<mapsto> Lit 1]\<rparr>)"
  "textures (Initialize_result s) = (textures s)
          (next_handle s + 4 := LoadedFromFile ''matrix.png'' False True True,
           next_handle s + 5 := LoadedFromFile ''monkey_emissive.png'' False True True,
           next_handle s + 7 := LoadedFromFile ''marble.png'' False True True,
           next_handle s + 8 := LoadedFromFile ''monkey_emissive.png'' False True True,
           next_handle s + 10 := LoadedFromFile ''marble.png'' False True True,
           next_handle s + 12 := LoadedFromFile ''polka.png'' False True True,
           next_handle s + 13 := LoadedFromFile ''polka.png'' False True True)"
  by (simp_all add: Initialize_result_def Let_def)

lemma rebase_Initialize_scene:
  "rebase_Scene h2 (Initialize_scene h1) = rebase_Scene h1 (Initialize_scene h2)"
  by (simp add: rebase_Scene_def Initialize_scene_def rebase_def fun_eq_iff)

lemma Initialize_relative_scene:
  "rebase_Scene (next_handle s2) (scenes (Initialize_result s1) (next_handle s1)) =
     rebase_Scene (next_handle s1) (scenes (Initialize_result s2) (next_handle s2))"
  by (simp only: Initialize_result_simps fun_upd_same) (rule rebase_Initialize_scene)

lemma Initialize_relative_shaders:
  "\<forall>k \<in> {1, 2}. shaders (Initialize_result s1) (next_handle s1 + k) =
     shaders (Initialize_result s2) (next_handle s2 + k)"
  by (simp add: Initialize_result_stores)

lemma Initialize_relative_materials:
  "\<forall>k \<in> {3, 6, 9, 11}.
     rebase_Material (next_handle s2) (materials (Initialize_result s1) (next_handle s1 + k)) =
     rebase_Material (next_handle s1) (materials (Initialize_result s2) (next_handle s2 + k))"
  by (simp add: Initialize_result_stores rebase_Material_def rebase_def fun_eq_iff)

lemma Initialize_relative_textures:
  "\<forall>k \<in> {4, 5, 7, 8, 10, 12, 13}. textures (Initialize_result s1) (next_handle s1 + k) =
     textures (Initialize_result s2) (next_handle s2 + k)"
  by (simp add: Initialize_result_stores)

lemma Initialize_relative_meshes:
  "\<forall>k \<in> {14, 15, 16}. meshes (Initialize_result s1) (next_handle s1 + k) =
     meshes (Initialize_result s2) (next_handle s2 + k)"
  by (simp add: Initialize_result_simps)

lemma Initialize_buffer_size:
  "\<forall>k \<in> {17, 18}.
     buffer_size (next_handle s + k) (Initialize_result s) = (window_Width s, window_Height s)"
  by (simp add: Initialize_result_simps buffer_size_def main_FrameBuffer_def)

lemma Initialize_relative_framebuffers:
  "\<forall>k \<in> {17, 18}.
     rebase_FrameBuffer (next_handle s2)
       ((framebuffers (Initialize_result s1) (next_handle s1 + k))
          \<lparr>fb_Width := w, fb_Height := ht\<rparr>) =
     rebase_FrameBuffer (next_handle s1)
       ((framebuffers (Initialize_result s2) (next_handle s2 + k))
          \<lparr>fb_Width := w, fb_Height := ht\<rparr>)"
  by (simp add: Initialize_result_simps rebase_FrameBuffer_def rebase_def main_FrameBuffer_def)

lemma Initialize_relative:
  "scene_registry (Initialize_result s1) ''main'' = Some (next_handle s1) \<and>
      scene_registry (Initialize_result s2) ''main'' = Some (next_handle s2) \<and>
      current_scene (Initialize_result s1) = current_scene (Initialize_result s2) \<and>
      next_handle (Initialize_result s1) = next_handle s1 + 19 \<and> next_handle (Initialize_result s2) = next_handle s2 + 19 \<and>
      rebase_Scene (next_handle s2) (scenes (Initialize_result s1) (next_handle s1)) =
        rebase_Scene (next_handle s1) (scenes (Initialize_result s2) (next_handle s2)) \<and>
      (\<forall>k \<in> {1, 2}. shaders (Initialize_result s1) (next_handle s1 + k) = shaders (Initialize_result s2) (next_handle s2 + k)) \<and>
      (\<forall>k \<in> {3, 6, 9, 11}.
         rebase_Material (next_handle s2) (materials (Initialize_result s1) (next_handle s1 + k)) =
         rebase_Material (next_handle s1) (materials (Initialize_result s2) (next_handle s2 + k))) \<and>
      (\<forall>k \<in> {4, 5, 7, 8, 10, 12, 13}.
         textures (Initialize_result s1) (next_handle s1 + k) = textures (Initialize_result s2) (next_handle s2 + k)) \<and>
      (\<forall>k \<in> {14, 15, 16}. meshes (Initialize_result s1) (next_handle s1 + k) = meshes (Initialize_result s2) (next_handle s2 + k)) \<and>
      (\<forall>k \<in> {17, 18}.
         buffer_size (next_handle s1 + k) (Initialize_result s1) = (window_Width s1, window_Height s1) \<and>
         buffer_size (next_handle s2 + k) (Initialize_result s2) = (window_Width s2, window_Height s2) \<and>
         rebase_FrameBuffer (next_handle s2)
           ((framebuffers (Initialize_result s1) (next_handle s1 + k))\<lparr>fb_Width := w, fb_Height := ht\<rparr>) =
         rebase_FrameBuffer (next_handle s1)
           ((framebuffers (Initialize_result s2) (next_handle s2 + k))\<lparr>fb_Width := w, fb_Height := ht\<rparr>))"
proof (intro conjI)
  show "\<forall>k \<in> {17, 18}.
         buffer_size (next_handle s1 + k) (Initialize_result s1) = (window_Width s1, window_Height s1) \<and>
         buffer_size (next_handle s2 + k) (Initialize_result s2) = (window_Width s2, window_Height s2) \<and>
         rebase_FrameBuffer (next_handle s2)
           ((framebuffers (Initialize_result s1) (next_handle s1 + k))\<lparr>fb_Width := w, fb_Height := ht\<rparr>) =
         rebase_FrameBuffer (next_handle s1)
           ((framebuffers (Initialize_result s2) (next_handle s2 + k))\<lparr>fb_Width := w, fb_Height := ht\<rparr>)"
    using Initialize_buffer_size[of s1] Initialize_buffer_size[of s2]
      Initialize_relative_framebuffers[where ?s1.0 = s1 and ?s2.0 = s2 and w = w and ht = ht]
    by simp
  show "scene_registry (Initialize_result s1) ''main'' = Some (next_handle s1)"
    by (simp add: Initialize_result_simps)
  show "scene_registry (Initialize_result s2) ''main'' = Some (next_handle s2)"
    by (simp add: Initialize_result_simps)
  show "current_scene (Initialize_result s1) = current_scene (Initialize_result s2)"
    by (simp add: Initialize_result_simps)
  show "next_handle (Initialize_result s1) = next_handle s1 + 19"
    by (rule Initialize_result_stores)
  show "next_handle (Initialize_result s2) = next_handle s2 + 19"
    by (rule Initialize_result_stores)
qed (rule Initialize_relative_scene Initialize_relative_shaders Initialize_relative_materials
    Initialize_relative_textures Initialize_relative_meshes)+

lemma engine2_no_fault:
  "no_fault (faults engine2) (calls engine2)
     (Initialize_calls (next_handle engine2) (window_Width engine2) (window_Height engine2))"
  by (simp add: Initialize_calls_def engine2_def engine1_def engine0_def)

text \<open>
  C3, as amended. Take any two runs of \<^verbatim>\<open>SceneBuilder::Initialize\<close> that return,
  from any two states: the windows, the objects allocated before, the scenes registered
  before, the caller's variables and the engine's faults may all differ. Each run
  registers as \<^verbatim>\<open>main\<close> the scene at the first unused handle of its start state and
  allocates nineteen objects from there. The two scenes are equal, each handle in them
  being as far from the start of its run in one as in the other; so are the two shaders,
  the four materials, the seven textures and the three meshes; and so are the main
  framebuffer and its clone, except for their width and height, which in each run are the
  width and height of the window of that run. A run from a state in which the engine
  raises nothing returns.
\<close>

theorem Initialize_window_only:
  "(faults s1 = never \<longrightarrow> (\<exists>t. SceneBuilder_Initialize s1 = Inr ((), t))) \<and>
   (\<forall>u1 t1 u2 t2.
      SceneBuilder_Initialize s1 = Inr (u1, t1) \<and> SceneBuilder_Initialize s2 = Inr (u2, t2) \<longrightarrow>
      scene_registry t1 ''main'' = Some (next_handle s1) \<and>
      scene_registry t2 ''main'' = Some (next_handle s2) \<and>
      current_scene t1 = current_scene t2 \<and>
      next_handle t1 = next_handle s1 + 19 \<and> next_handle t2 = next_handle s2 + 19 \<and>
      rebase_Scene (next_handle s2) (scenes t1 (next_handle s1)) =
        rebase_Scene (next_handle s1) (scenes t2 (next_handle s2)) \<and>
      (\<forall>k \<in> {1, 2}. shaders t1 (next_handle s1 + k) = shaders t2 (next_handle s2 + k)) \<and>
      (\<forall>k \<in> {3, 6, 9, 11}.
         rebase_Material (next_handle s2) (materials t1 (next_handle s1 + k)) =
         rebase_Material (next_handle s1) (materials t2 (next_handle s2 + k))) \<and>
      (\<forall>k \<in> {4, 5, 7, 8, 10, 12, 13}.
         textures t1 (next_handle s1 + k) = textures t2 (next_handle s2 + k)) \<and>
      (\<forall>k \<in> {14, 15, 16}. meshes t1 (next_handle s1 + k) = meshes t2 (next_handle s2 + k)) \<and>
      (\<forall>k \<in> {17, 18}.
         buffer_size (next_handle s1 + k) t1 = (window_Width s1, window_Height s1) \<and>
         buffer_size (next_handle s2 + k) t2 = (window_Width s2, window_Height s2) \<and>
         rebase_FrameBuffer (next_handle s2)
           ((framebuffers t1 (next_handle s1 + k))\<lparr>fb_Width := w, fb_Height := ht\<rparr>) =
         rebase_FrameBuffer (next_handle s1)
           ((framebuffers t2 (next_handle s2 + k))\<lparr>fb_Width := w, fb_Height := ht\<rparr>)))"
proof (rule conjI)
  show "faults s1 = never \<longrightarrow> (\<exists>t. SceneBuilder_Initialize s1 = Inr ((), t))"
    using Initialize_run[of s1] by blast
next
  show "\<forall>u1 t1 u2 t2.
      SceneBuilder_Initialize s1 = Inr (u1, t1) \<and> SceneBuilder_Initialize s2 = Inr (u2, t2) \<longrightarrow>
      scene_registry t1 ''main'' = Some (next_handle s1) \<and>
      scene_registry t2 ''main'' = Some (next_handle s2) \<and>
      current_scene t1 = current_scene t2 \<and>
      next_handle t1 = next_handle s1 + 19 \<and> next_handle t2 = next_handle s2 + 19 \<and>
      rebase_Scene (next_handle s2) (scenes t1 (next_handle s1)) =
        rebase_Scene (next_handle s1) (scenes t2 (next_handle s2)) \<and>
      (\<forall>k \<in> {1, 2}. shaders t1 (next_handle s1 + k) = shaders t2 (next_handle s2 + k)) \<and>
      (\<forall>k \<in> {3, 6, 9, 11}.
         rebase_Material (next_handle s2) (materials t1 (next_handle s1 + k)) =
         rebase_Material (next_handle s1) (materials t2 (next_handle s2 + k))) \<and>
      (\<forall>k \<in> {4, 5, 7, 8, 10, 12, 13}.
         textures t1 (next_handle s1 + k) = textures t2 (next_handle s2 + k)) \<and>
      (\<forall>k \<in> {14, 15, 16}. meshes t1 (next_handle s1 + k) = meshes t2 (next_handle s2 + k)) \<and>
      (\<forall>k \<in> {17, 18}.
         buffer_size (next_handle s1 + k) t1 = (window_Width s1, window_Height s1) \<and>
         buffer_size (next_handle s2 + k) t2 = (window_Width s2, window_Height s2) \<and>
         rebase_FrameBuffer (next_handle s2)
           ((framebuffers t1 (next_handle s1 + k))\<lparr>fb_Width := w, fb_Height := ht\<rparr>) =
         rebase_FrameBuffer (next_handle s1)
           ((framebuffers t2 (next_handle s2 + k))\<lparr>fb_Width := w, fb_Height := ht\<rparr>))"
  proof (intro allI impI)
    fix u1 t1 u2 t2
    assume "SceneBuilder_Initialize s1 = Inr (u1, t1) \<and>
      SceneBuilder_Initialize s2 = Inr (u2, t2)"
    then have t: "t1 = Initialize_result s1" "t2 = Initialize_result s2"
      by (simp_all add: Initialize_Inr)
    show "scene_registry t1 ''main'' = Some (next_handle s1) \<and>
      scene_registry t2 ''main'' = Some (next_handle s2) \<and>
      current_scene t1 = current_scene t2 \<and>
      next_handle t1 = next_handle s1 + 19 \<and> next_handle t2 = next_handle s2 + 19 \<and>
      rebase_Scene (next_handle s2) (scenes t1 (next_handle s1)) =
        rebase_Scene (next_handle s1) (scenes t2 (next_handle s2)) \<and>
      (\<forall>k \<in> {1, 2}. shaders t1 (next_handle s1 + k) = shaders t2 (next_handle s2 + k)) \<and>
      (\<forall>k \<in> {3, 6, 9, 11}.
         rebase_Material (next_handle s2) (materials t1 (next_handle s1 + k)) =
         rebase_Material (next_handle s1) (materials t2 (next_handle s2 + k))) \<and>
      (\<forall>k \<in> {4, 5, 7, 8, 10, 12, 13}.
         textures t1 (next_handle s1 + k) = textures t2 (next_handle s2 + k)) \<and>
      (\<forall>k \<in> {14, 15, 16}. meshes t1 (next_handle s1 + k) = meshes t2 (next_handle s2 + k)) \<and>
      (\<forall>k \<in> {17, 18}.
         buffer_size (next_handle s1 + k) t1 = (window_Width s1, window_Height s1) \<and>
         buffer_size (next_handle s2 + k) t2 = (window_Width s2, window_Height s2) \<and>
         rebase_FrameBuffer (next_handle s2)
           ((framebuffers t1 (next_handle s1 + k))\<lparr>fb_Width := w, fb_Height := ht\<rparr>) =
         rebase_FrameBuffer (next_handle s1)
           ((framebuffers t2 (next_handle s2 + k))\<lparr>fb_Width := w, fb_Height := ht\<rparr>))"
      unfolding t by (rule Initialize_relative)
  qed
qed

theorem Initialize_window_only_witness:
  "\<exists>t1 t2.
     SceneBuilder_Initialize engine0 = Inr ((), t1) \<and>
     SceneBuilder_Initialize engine2 = Inr ((), t2) \<and>
     rebase_Scene 5 (scenes t1 0) = rebase_Scene 0 (scenes t2 5) \<and>
     buffer_size 17 t1 = (800, 600) \<and> buffer_size 22 t2 = (1024, 768) \<and>
     buffer_size 18 t1 = (800, 600) \<and> buffer_size 23 t2 = (1024, 768)"
proof -
  have "faults engine0 = never" by (simp add: engine0_def)
  with Initialize_window_only [of engine0, THEN conjunct1] obtain t1 where
    r1: "SceneBuilder_Initialize engine0 = Inr ((), t1)" by blast
  have r2: "SceneBuilder_Initialize engine2 = Inr ((), Initialize_result engine2)"
    using engine2_no_fault by (rule Initialize_returns)
  have w: "window_Width engine0 = 800" "window_Height engine0 = 600"
    "window_Width engine2 = 1024" "window_Height engine2 = 768"
    "next_handle engine0 = 0" "next_handle engine2 = 5"
    by (simp_all add: engine0_def engine1_def engine2_def)
  from r1 r2 have "SceneBuilder_Initialize engine0 = Inr ((), t1) \<and>
      SceneBuilder_Initialize engine2 = Inr ((), Initialize_result engine2)"
    by simp
  from Initialize_window_only [of engine0 engine2 0 0, THEN conjunct2, rule_format, OF this]
  have "rebase_Scene 5 (scenes t1 0) = rebase_Scene 0 (scenes (Initialize_result engine2) 5)"
    and "buffer_size 17 t1 = (800, 600)"
    and "buffer_size 22 (Initialize_result engine2) = (1024, 768)"
    and "buffer_size 18 t1 = (800, 600)"
    and "buffer_size 23 (Initialize_result engine2) = (1024, 768)"
    by (simp_all only: w) simp_all
  with r1 r2 show ?thesis by (intro exI[of _ t1] exI[of _ "Initialize_result engine2"] conjI)
qed

text \<open>
  C3 as stated fails: from the same state but for the window, 800 by 600 in one run and
  1024 by 768 in the other, the back buffer of the camera is 800 by 600 in one run and
  1024 by 768 in the other.
\<close>

theorem Initialize_window_counterexample:
  "map_option back_buffer_sizes (final_state (SceneBuilder_Initialize engine0)) =
     Some [(800, 600)] \<and>
   map_option back_buffer_sizes (final_state (SceneBuilder_Initialize
       (engine0\<lparr>window_Width := 1024, window_Height := 768\<rparr>))) =
     Some [(1024, 768)]"
proof -
  let ?e = "engine0\<lparr>window_Width := 1024, window_Height := 768\<rparr>"
  have "SceneBuilder_Initialize ?e = Inr ((), Initialize_result ?e)"
    by (rule Initialize_run) (simp add: engine0_def)
  then have 1: "final_state (SceneBuilder_Initialize ?e) = Some (Initialize_result ?e)"
    by (simp add: final_state_def)
  have 0: "final_state (SceneBuilder_Initialize engine0) = Some (Initialize_result engine0)"
    by (simp add: engine0_run final_state_def)
  have 2: "back_buffer_sizes (Initialize_result engine0) = [(800, 600)]"
    by (simp add: back_buffer_sizes_def Initialize_result_simps Initialize_scene_def
        buffer_size_def main_FrameBuffer_def engine0_def)
  have 3: "back_buffer_sizes (Initialize_result ?e) = [(1024, 768)]"
    by (simp add: back_buffer_sizes_def Initialize_result_simps Initialize_scene_def
        buffer_size_def main_FrameBuffer_def engine0_def)
  show ?thesis
    by (simp only: 0 1 2 3 option.map)
qed

lemma Initialize_calls_camera:
  "filter assigns_camera (Initialize_calls h w ht) = [Call_assign CameraC h 3]"
  "Call_Clone (h + 17) \<in> set (Initialize_calls h w ht)"
  by (simp_all add: Initialize_calls_def)

lemma Initialize_scene_camera:
  "camera_entities (Initialize_scene h) = [3]"
  "dom (Cameras (Initialize_scene h)) = {3}"
  "Cameras (Initialize_scene h) 3 =
     Some \<lparr>cam_BackBuffer = Some (h + 17), cam_FrontBuffer = Some (h + 18),
            cam_IsMainCamera = Some True,
            cam_Projection = Some (glm_perspective (glm_radians (Lit 60)) (Lit 1)
                                     (Lit 0.1) (Lit 1000))\<rparr>"
  by (simp_all add: Initialize_scene_def camera_entities_def)

text \<open>
  C4. A run of \<^verbatim>\<open>SceneBuilder::Initialize\<close> from a state in which the engine raises
  nothing returns. Whenever a run returns, exactly one of the calls it made assigns a
  \<^verbatim>\<open>CameraComponent\<close>, to an entity of the scene registered as \<^verbatim>\<open>main\<close>, and one of
  its calls is \<^verbatim>\<open>Clone\<close> on the back buffer; that entity is the only one of the scene
  that carries a \<^verbatim>\<open>CameraComponent\<close>; the component's \<^verbatim>\<open>IsMainCamera\<close> is true, its
  projection is \<^verbatim>\<open>glm::perspective(glm::radians(60.0f), 1.0f, 0.1f, 1000.0f)\<close>, and its
  back buffer and front buffer are two different framebuffers, the front buffer being
  the clone of the back buffer. That the entity is the only one rests on a newly
  registered scene holding no entity, and that the two buffers differ rests on a clone
  being another object than its original: both are the engine's behaviour as modelled
  above, the engine not being part of the sources.
\<close>

theorem Initialize_camera_component:
  "(faults s = never \<longrightarrow> (\<exists>s'. SceneBuilder_Initialize s = Inr ((), s'))) \<and>
   (\<forall>u s'. SceneBuilder_Initialize s = Inr (u, s') \<longrightarrow>
      (\<exists>sc e cam b f new.
         scene_registry s' ''main'' = Some sc \<and> calls s' = calls s @ new \<and>
         filter assigns_camera new = [Call_assign CameraC sc e] \<and>
         Call_Clone b \<in> set new \<and>
         camera_entities (scenes s' sc) = [e] \<and>
         dom (Cameras (scenes s' sc)) = {e} \<and>
         Cameras (scenes s' sc) e = Some cam \<and>
         cam_IsMainCamera cam = Some True \<and>
         cam_Projection cam =
           Some (glm_perspective (glm_radians (Lit 60)) (Lit 1) (Lit 0.1) (Lit 1000)) \<and>
         cam_BackBuffer cam = Some b \<and> cam_FrontBuffer cam = Some f \<and> b \<noteq> f \<and>
         fb_CloneOf (framebuffers s' f) = Some b))"
proof (rule conjI)
  show "faults s = never \<longrightarrow> (\<exists>s'. SceneBuilder_Initialize s = Inr ((), s'))"
    using Initialize_run[of s] by blast
next
  show "\<forall>u s'. SceneBuilder_Initialize s = Inr (u, s') \<longrightarrow>
      (\<exists>sc e cam b f new.
         scene_registry s' ''main'' = Some sc \<and> calls s' = calls s @ new \<and>
         filter assigns_camera new = [Call_assign CameraC sc e] \<and>
         Call_Clone b \<in> set new \<and>
         camera_entities (scenes s' sc) = [e] \<and>
         dom (Cameras (scenes s' sc)) = {e} \<and>
         Cameras (scenes s' sc) e = Some cam \<and>
         cam_IsMainCamera cam = Some True \<and>
         cam_Projection cam =
           Some (glm_perspective (glm_radians (Lit 60)) (Lit 1) (Lit 0.1) (Lit 1000)) \<and>
         cam_BackBuffer cam = Some b \<and> cam_FrontBuffer cam = Some f \<and> b \<noteq> f \<and>
         fb_CloneOf (framebuffers s' f) = Some b)"
  proof (intro allI impI)
    fix u s' assume "SceneBuilder_Initialize s = Inr (u, s')"
    then have s': "s' = Initialize_result s" by (rule Initialize_Inr)
    let ?h = "next_handle s"
    let ?new = "Initialize_calls ?h (window_Width s) (window_Height s)"
    let ?cam = "\<lparr>cam_BackBuffer = Some (?h + 17), cam_FrontBuffer = Some (?h + 18),
            cam_IsMainCamera = Some True,
            cam_Projection = Some (glm_perspective (glm_radians (Lit 60)) (Lit 1)
                                     (Lit 0.1) (Lit 1000))\<rparr>"
    have 1: "scene_registry s' ''main'' = Some ?h" "calls s' = calls s @ ?new"
      "scenes s' ?h = Initialize_scene ?h"
      "fb_CloneOf (framebuffers s' (?h + 18)) = Some (?h + 17)"
      unfolding s' by (simp_all add: Initialize_result_simps)
    have 2: "cam_IsMainCamera ?cam = Some True"
      "cam_Projection ?cam =
         Some (glm_perspective (glm_radians (Lit 60)) (Lit 1) (Lit 0.1) (Lit 1000))"
      "cam_BackBuffer ?cam = Some (?h + 17)" "cam_FrontBuffer ?cam = Some (?h + 18)"
      "?h + 17 \<noteq> ?h + 18"
      by simp_all
    show "\<exists>sc e cam b f new.
         scene_registry s' ''main'' = Some sc \<and> calls s' = calls s @ new \<and>
         filter assigns_camera new = [Call_assign CameraC sc e] \<and>
         Call_Clone b \<in> set new \<and>
         camera_entities (scenes s' sc) = [e] \<and>
         dom (Cameras (scenes s' sc)) = {e} \<and>
         Cameras (scenes s' sc) e = Some cam \<and>
         cam_IsMainCamera cam = Some True \<and>
         cam_Projection cam =
           Some (glm_perspective (glm_radians (Lit 60)) (Lit 1) (Lit 0.1) (Lit 1000)) \<and>
         cam_BackBuffer cam = Some b \<and> cam_FrontBuffer cam = Some f \<and> b \<noteq> f \<and>
         fb_CloneOf (framebuffers s' f) = Some b"
      apply (rule exI[of _ ?h], rule exI[of _ 3], rule exI[of _ ?cam])
      apply (rule exI[of _ "?h + 17"], rule exI[of _ "?h + 18"], rule exI[of _ ?new])
      apply (simp only: 1 2 Initialize_calls_camera Initialize_scene_camera)
      apply simp
      done
  qed
qed

theorem Initialize_camera_component_witness:
  "\<exists>s'. SceneBuilder_Initialize engine0 = Inr ((), s') \<and>
     (\<exists>sc e cam b f new.
         scene_registry s' ''main'' = Some sc \<and> calls s' = calls engine0 @ new \<and>
         filter assigns_camera new = [Call_assign CameraC sc e] \<and>
         Call_Clone b \<in> set new \<and>
         camera_entities (scenes s' sc) = [e] \<and>
         dom (Cameras (scenes s' sc)) = {e} \<and>
         Cameras (scenes s' sc) e = Some cam \<and>
         cam_IsMainCamera cam = Some True \<and>
         cam_Projection cam =
           Some (glm_perspective (glm_radians (Lit 60)) (Lit 1) (Lit 0.1) (Lit 1000)) \<and>
         cam_BackBuffer cam = Some b \<and> cam_FrontBuffer cam = Some f \<and> b \<noteq> f \<and>
         fb_CloneOf (framebuffers s' f) = Some b)"
proof -
  have "faults engine0 = never" by (simp add: engine0_def)
  with Initialize_camera_component [of engine0, THEN conjunct1] obtain s' where
    run: "SceneBuilder_Initialize engine0 = Inr ((), s')" by blast
  from Initialize_camera_component [of engine0, THEN conjunct2, rule_format, OF run] run
  show ?thesis by (intro exI[of _ s'] conjI)
qed

text \<open>
  C5. The lights that \<^verbatim>\<open>SceneBuilder::Initialize\<close> constructs are one light, not
  several: when it returns, exactly one entity of the scene registered as \<^verbatim>\<open>main\<close>
  carries a light component, a \<^verbatim>\<open>PointLightComponent\<close>, and no entity carries a
  \<^verbatim>\<open>ShadowLight\<close>. The loop that the comment calls a ring of point lights runs for
  \<^verbatim>\<open>i < 1\<close>, not for \<^verbatim>\<open>i < numMonkeys\<close>, and \<^verbatim>\<open>CreateShadowCaster\<close> is never
  called.
\<close>

theorem Initialize_one_light:
  assumes "SceneBuilder_Initialize s = Inr (u, s')"
  shows "\<exists>sc e. scene_registry s' ''main'' = Some sc \<and>
           light_entities (scenes s' sc) = [e] \<and>
           PointLights (scenes s' sc) e \<noteq> None \<and>
           ShadowLights (scenes s' sc) = Map.empty"
proof -
  have s': "s' = Initialize_result s" using assms by (rule Initialize_Inr)
  show ?thesis
    unfolding s'
    by (simp add: Initialize_result_simps Initialize_scene_def light_entities_def)
qed

theorem Initialize_one_light_witness:
  "\<exists>sc e. scene_registry (Initialize_result engine0) ''main'' = Some sc \<and>
     light_entities (scenes (Initialize_result engine0) sc) = [e] \<and>
     PointLights (scenes (Initialize_result engine0) sc) e \<noteq> None \<and>
     ShadowLights (scenes (Initialize_result engine0) sc) = Map.empty"
  by (rule Initialize_one_light [OF engine0_run])

lemma Initialize_calls_LoadObj:
  "Call_LoadObj ''paddle.obj'' (vec4_all (Lit 1)) \<in> set (Initialize_calls h w ht)"
  "Call_LoadObj ''ball.obj'' (vec4_all (Lit 1)) \<in> set (Initialize_calls h w ht)"
  by (simp_all add: Initialize_calls_def vec4_all_def)

lemma Initialize_result_meshes:
  "entities (Initialize_scene h) = [0, 1, 2, 3, 4]"
  "mesh_file (Initialize_result s) (Initialize_scene (next_handle s)) 0 = Some ''ball.obj''"
  "mesh_file (Initialize_result s) (Initialize_scene (next_handle s)) (Suc 0) =
     Some ''paddle.obj''"
  "mesh_file (Initialize_result s) (Initialize_scene (next_handle s)) 2 = Some ''paddle.obj''"
  "mesh_file (Initialize_result s) (Initialize_scene (next_handle s)) 3 = None"
  "mesh_file (Initialize_result s) (Initialize_scene (next_handle s)) 4 = None"
  "behaviours (Initialize_scene h) 0 = [ControlBehaviour (vec3 (Lit 1) (Lit 1) (Lit 1))]"
  "behaviours (Initialize_scene h) (Suc 0) =
     [RotateBehaviour (vec3 (Lit 45) (Lit 45) (Lit 45)), RandomBehaviour]"
  "behaviours (Initialize_scene h) 2 =
     [RotateBehaviour (vec3 (Lit (- 45)) (Lit (- 45)) (Lit (- 45))), RandomBehaviour]"
  by (simp_all add: Initialize_scene_def mesh_file_def Initialize_result_simps)

text \<open>
  C6. A run of \<^verbatim>\<open>SceneBuilder::Initialize\<close> from a state in which the engine raises
  nothing returns. Whenever a run returns, it has loaded \<^verbatim>\<open>paddle.obj\<close> and
  \<^verbatim>\<open>ball.obj\<close>; the meshes of its five entities come, in creation order, from
  \<^verbatim>\<open>ball.obj\<close>, \<^verbatim>\<open>paddle.obj\<close>, \<^verbatim>\<open>paddle.obj\<close>, and no mesh for the last two; and
  every entity with a mesh from \<^verbatim>\<open>ball.obj\<close> has a \<^verbatim>\<open>ControlBehaviour\<close>, every entity
  with a mesh from \<^verbatim>\<open>paddle.obj\<close> a \<^verbatim>\<open>RotateBehaviour\<close> and a \<^verbatim>\<open>RandomBehaviour\<close>.
\<close>

theorem Initialize_paddle_ball:
  "(faults s = never \<longrightarrow> (\<exists>s'. SceneBuilder_Initialize s = Inr ((), s'))) \<and>
   (\<forall>u s'. SceneBuilder_Initialize s = Inr (u, s') \<longrightarrow>
      (\<exists>sc new.
         scene_registry s' ''main'' = Some sc \<and> calls s' = calls s @ new \<and>
         Call_LoadObj ''paddle.obj'' (vec4_all (Lit 1)) \<in> set new \<and>
         Call_LoadObj ''ball.obj'' (vec4_all (Lit 1)) \<in> set new \<and>
         map (mesh_file s' (scenes s' sc)) (entities (scenes s' sc)) =
           [Some ''ball.obj'', Some ''paddle.obj'', Some ''paddle.obj'', None, None] \<and>
         (\<forall>e \<in> set (entities (scenes s' sc)).
            (mesh_file s' (scenes s' sc) e = Some ''ball.obj'' \<longrightarrow>
               (\<exists>v. ControlBehaviour v \<in> set (behaviours (scenes s' sc) e))) \<and>
            (mesh_file s' (scenes s' sc) e = Some ''paddle.obj'' \<longrightarrow>
               (\<exists>v. RotateBehaviour v \<in> set (behaviours (scenes s' sc) e)) \<and>
               RandomBehaviour \<in> set (behaviours (scenes s' sc) e)))))"
proof (rule conjI)
  show "faults s = never \<longrightarrow> (\<exists>s'. SceneBuilder_Initialize s = Inr ((), s'))"
    using Initialize_run[of s] by blast
next
  show "\<forall>u s'. SceneBuilder_Initialize s = Inr (u, s') \<longrightarrow>
      (\<exists>sc new.
         scene_registry s' ''main'' = Some sc \<and> calls s' = calls s @ new \<and>
         Call_LoadObj ''paddle.obj'' (vec4_all (Lit 1)) \<in> set new \<and>
         Call_LoadObj ''ball.obj'' (vec4_all (Lit 1)) \<in> set new \<and>
         map (mesh_file s' (scenes s' sc)) (entities (scenes s' sc)) =
           [Some ''ball.obj'', Some ''paddle.obj'', Some ''paddle.obj'', None, None] \<and>
         (\<forall>e \<in> set (entities (scenes s' sc)).
            (mesh_file s' (scenes s' sc) e = Some ''ball.obj'' \<longrightarrow>
               (\<exists>v. ControlBehaviour v \<in> set (behaviours (scenes s' sc) e))) \<and>
            (mesh_file s' (scenes s' sc) e = Some ''paddle.obj'' \<longrightarrow>
               (\<exists>v. RotateBehaviour v \<in> set (behaviours (scenes s' sc) e)) \<and>
               RandomBehaviour \<in> set (behaviours (scenes s' sc) e))))"
  proof (intro allI impI)
    fix u s' assume "SceneBuilder_Initialize s = Inr (u, s')"
    then have s': "s' = Initialize_result s" by (rule Initialize_Inr)
    let ?h = "next_handle s"
    let ?new = "Initialize_calls ?h (window_Width s) (window_Height s)"
    have 1: "scene_registry s' ''main'' = Some ?h" "calls s' = calls s @ ?new"
      "scenes s' ?h = Initialize_scene ?h"
      unfolding s' by (simp_all add: Initialize_result_simps)
    show "\<exists>sc new.
         scene_registry s' ''main'' = Some sc \<and> calls s' = calls s @ new \<and>
         Call_LoadObj ''paddle.obj'' (vec4_all (Lit 1)) \<in> set new \<and>
         Call_LoadObj ''ball.obj'' (vec4_all (Lit 1)) \<in> set new \<and>
         map (mesh_file s' (scenes s' sc)) (entities (scenes s' sc)) =
           [Some ''ball.obj'', Some ''paddle.obj'', Some ''paddle.obj'', None, None] \<and>
         (\<forall>e \<in> set (entities (scenes s' sc)).
            (mesh_file s' (scenes s' sc) e = Some ''ball.obj'' \<longrightarrow>
               (\<exists>v. ControlBehaviour v \<in> set (behaviours (scenes s' sc) e))) \<and>
            (mesh_file s' (scenes s' sc) e = Some ''paddle.obj'' \<longrightarrow>
               (\<exists>v. RotateBehaviour v \<in> set (behaviours (scenes s' sc) e)) \<and>
               RandomBehaviour \<in> set (behaviours (scenes s' sc) e)))"
      apply (rule exI[of _ ?h], rule exI[of _ ?new])
      apply (simp only: 1 Initialize_calls_LoadObj)
      apply (simp add: s' Initialize_result_meshes)
      done
  qed
qed

theorem Initialize_paddle_ball_witness:
  "\<exists>s'. SceneBuilder_Initialize engine0 = Inr ((), s') \<and>
     (\<exists>sc new.
         scene_registry s' ''main'' = Some sc \<and> calls s' = calls engine0 @ new \<and>
         Call_LoadObj ''paddle.obj'' (vec4_all (Lit 1)) \<in> set new \<and>
         Call_LoadObj ''ball.obj'' (vec4_all (Lit 1)) \<in> set new \<and>
         map (mesh_file s' (scenes s' sc)) (entities (scenes s' sc)) =
           [Some ''ball.obj'', Some ''paddle.obj'', Some ''paddle.obj'', None, None] \<and>
         (\<forall>e \<in> set (entities (scenes s' sc)).
            (mesh_file s' (scenes s' sc) e = Some ''ball.obj'' \<longrightarrow>
               (\<exists>v. ControlBehaviour v \<in> set (behaviours (scenes s' sc) e))) \<and>
            (mesh_file s' (scenes s' sc) e = Some ''paddle.obj'' \<longrightarrow>
               (\<exists>v. RotateBehaviour v \<in> set (behaviours (scenes s' sc) e)) \<and>
               RandomBehaviour \<in> set (behaviours (scenes s' sc) e))))"
proof -
  have "faults engine0 = never" by (simp add: engine0_def)
  with Initialize_paddle_ball [of engine0, THEN conjunct1] obtain s' where
    run: "SceneBuilder_Initialize engine0 = Inr ((), s')" by blast
  from Initialize_paddle_ball [of engine0, THEN conjunct2, rule_format, OF run] run
  show ?thesis by (intro exI[of _ s'] conjI)
qed

section \<open>CreateSolidTexture\<close>

lemma vec4_eq_refl: "\<not> has_nan c \<Longrightarrow> vec4_eq c c"
  by (cases c) (simp add: float_eq_def)

lemma cache_find_None:
  "cache_find c kvs = None \<longleftrightarrow> \<not> list_ex (\<lambda>kv. vec4_eq (fst kv) c) kvs"
  by (auto simp: cache_find_def find_None_iff list_ex_iff)

lemma cache_find_append:
  "cache_find c (kvs @ [(c, t)]) =
     (case cache_find c kvs of Some t' \<Rightarrow> Some t' | None \<Rightarrow> if vec4_eq c c then Some t else None)"
  by (induction kvs) (simp_all add: cache_find_def)

text \<open>
  C9, as amended. When \<^verbatim>\<open>CreateSolidTexture(c)\<close> returns a texture, then, if no
  component of \<open>c\<close> is a NaN, a second call with \<open>c\<close> returns the same texture and
  changes nothing (it makes no call and allocates nothing); and, for every \<open>c\<close>, the
  first call leaves the cache as it was or adds the one entry for \<open>c\<close> at its end.
\<close>

theorem CreateSolidTexture_cached:
  assumes "CreateSolidTexture c s = Inr (t, s1)"
  shows "(\<not> has_nan c \<longrightarrow> CreateSolidTexture c s1 = Inr (t, s1)) \<and>
         (cache s1 = cache s \<or> cache s1 = cache s @ [(c, t)])"
proof (cases "cache_find c (cache s)")
  case (Some t0)
  with assms have "t = t0" "s1 = s"
    by (simp_all add: CreateSolidTexture_def io_Inr)
  with Some show ?thesis
    by (simp add: CreateSolidTexture_def bind_io_def gets_def return_io_def)
next
  case None
  then have put: "cache_put c t (cache s) = cache s @ [(c, t)]"
    by (simp add: cache_put_def cache_find_None)
  from assms None have s1: "cache s1 = cache_put c t (cache s)"
    by (auto simp: CreateSolidTexture_def io_Inr make_Texture2D_def Texture2D_SetData_def
        alloc_def Let_def split_def)
  have "CreateSolidTexture c s1 = Inr (t, s1)" if "\<not> has_nan c"
    using that None
    by (simp add: CreateSolidTexture_def bind_io_def gets_def return_io_def s1 put
        cache_find_append vec4_eq_refl)
  with s1 put show ?thesis by simp
qed

theorem CreateSolidTexture_cached_witness:
  "\<exists>s1. CreateSolidTexture (vec4_all 0x3F800000) engine0 = Inr (0, s1) \<and>
     CreateSolidTexture (vec4_all 0x3F800000) s1 = Inr (0, s1)"
proof -
  have nn: "\<not> has_nan (vec4_all 0x3F800000)"
    by (simp add: vec4_all_def is_nan_def)
  obtain s1 where run: "CreateSolidTexture (vec4_all 0x3F800000) engine0 = Inr (0, s1)"
    by (simp add: CreateSolidTexture_def bind_io_def gets_def return_io_def modify_def
        make_Texture2D_def Texture2D_SetData_def invoke_never alloc_def Let_def split_def
        cache_find_def engine0_def)
  from CreateSolidTexture_cached [OF run] nn run show ?thesis
    by blast
qed

text \<open>
  C9 as stated fails for a colour with a NaN component: \<^verbatim>\<open>find\<close> compares keys with
  \<^verbatim>\<open>==\<close>, a NaN is equal to nothing, so the second call does not find the entry of the
  first. From \<open>engine0\<close>, the first call returns texture 0 and the second texture 1.
\<close>

theorem CreateSolidTexture_nan_counterexample:
  "map_sum id fst (CreateSolidTexture_twice nan_color engine0) = Inr (0, 1)"
  by (simp add: CreateSolidTexture_twice_def CreateSolidTexture_def bind_io_def gets_def
      return_io_def modify_def make_Texture2D_def Texture2D_SetData_def invoke_never alloc_def
      Let_def split_def cache_find_def cache_put_def nan_color_def float_eq_def is_nan_def
      engine0_def)

section \<open>CreateShadowCaster\<close>

text \<open>
  C10. When \<^verbatim>\<open>CreateShadowCaster\<close> returns, the scene has exactly one entity more
  than before, one that it did not hold, and no other scene has changed; the value
  returned refers to the \<^verbatim>\<open>ShadowLight\<close> of that entity, which holds the values the
  function assigned; and nothing is written through \<^verbatim>\<open>entityOut\<close> when it is null,
  while the new entity is stored at \<^verbatim>\<open>*entityOut\<close> when it is not.
\<close>

theorem CreateShadowCaster_creates_one_entity:
  assumes "CreateShadowCaster scene entityOut pos target up distance fov bufferSize name s =
             Inr (light, s')"
  shows "entities (scenes s' scene) = entities (scenes s scene) @ [light] \<and>
         light \<notin> set (entities (scenes s scene)) \<and>
         (\<forall>sc. sc \<noteq> scene \<longrightarrow> scenes s' sc = scenes s sc) \<and>
         ShadowLights (scenes s' scene) light =
           Some \<lparr>sl_ShadowBuffer = Some (next_handle s),
                 sl_Projection = Some (glm_perspective (glm_radians fov)
                    (Div (OfInt (ivec2_x bufferSize)) (OfInt (ivec2_y bufferSize)))
                    (Lit 0.25) distance),
                 sl_Attenuation = Some (Div (Lit 1) distance),
                 sl_Color = Some (vec3_all (Lit 1))\<rparr> \<and>
         entity_vars s' =
           (case entityOut of None \<Rightarrow> entity_vars s | Some p \<Rightarrow> (entity_vars s)(p := light))"
  using assms fresh_entity_fresh[of "entities (scenes s scene)"]
  by (cases name; cases entityOut)
     (auto simp: CreateShadowCaster_def engine_defs write_defs io_Inr alloc_def upd_scene_def
        Let_def split_def)

lemma CreateShadowCaster_returns:
  assumes "faults s = never"
  shows "\<exists>light s'. CreateShadowCaster scene entityOut pos target up distance fov bufferSize name s
           = Inr (light, s')"
  using assms
  by (cases name; cases entityOut)
     (simp_all add: CreateShadowCaster_def engine_defs write_defs bind_io_def return_io_def
        modify_def invoke_never alloc_def upd_scene_def Let_def split_def)

theorem CreateShadowCaster_creates_one_entity_witness:
  "\<exists>light s'.
     CreateShadowCaster 0 (Some 7) (vec3_all (Lit 1)) (vec3_all (Lit 0)) (vec3 (Lit 0) (Lit 1) (Lit 0))
       (Lit 10) (Lit 60) (ivec2 1024 1024) None (Initialize_result engine0) = Inr (light, s') \<and>
     entities (scenes s' 0) = [0, 1, 2, 3, 4, light] \<and> light \<notin> set [0, 1, 2, 3, 4] \<and>
     ShadowLights (scenes s' 0) light \<noteq> None \<and> entity_vars s' 7 = light"
proof -
  let ?s = "Initialize_result engine0"
  have "faults ?s = never" by (simp add: Initialize_result_def Let_def engine0_def)
  from CreateShadowCaster_returns [OF this]
  obtain light s' where
    run: "CreateShadowCaster 0 (Some 7) (vec3_all (Lit 1)) (vec3_all (Lit 0))
       (vec3 (Lit 0) (Lit 1) (Lit 0)) (Lit 10) (Lit 60) (ivec2 1024 1024) None ?s = Inr (light, s')"
    by blast
  have ents: "entities (scenes ?s 0) = [0, 1, 2, 3, 4]"
    by (simp add: Initialize_result_simps Initialize_scene_def engine0_def)
  from CreateShadowCaster_creates_one_entity [OF run] ents
  have 1: "entities (scenes s' 0) = [0, 1, 2, 3, 4, light]"
    and 2: "ShadowLights (scenes s' 0) light \<noteq> None"
    and 3: "entity_vars s' 7 = light"
    and 4: "light \<notin> set [0, 1, 2, 3, 4]"
    by simp_all
  with run show ?thesis by blast
qed

end
